theory Spec2Isabelle
  imports Complex_Main
begin

section \<open>JavaScript strings\<close>

text \<open>
  A JavaScript string is a sequence of code units; the decoder only ever compares code units
  with \<open>:\<close>, space, line feed, carriage return, NUL, decimal digits, the three code units
  239, 187, 191 and the field names, so a \<open>string\<close> (a \<open>char list\<close>) carries everything the
  code looks at. Indices are JavaScript numbers and may be negative, hence \<open>int\<close>.
\<close>

abbreviation LF :: char where "LF \<equiv> CHR 0x0A"
abbreviation CR :: char where "CR \<equiv> CHR 0x0D"

text \<open>\<open>s[i]\<close>: \<open>undefined\<close> (here \<open>None\<close>) outside the string.\<close>

definition charAt :: "string \<Rightarrow> int \<Rightarrow> char option" where
  "charAt s i = (if 0 \<le> i \<and> i < int (length s) then Some (s ! nat i) else None)"

text \<open>\<open>s.charCodeAt(i)\<close>: \<open>NaN\<close> (here \<open>None\<close>) outside the string.\<close>

definition charCodeAt :: "string \<Rightarrow> int \<Rightarrow> nat option" where
  "charCodeAt s i = map_option of_char (charAt s i)"

text \<open>\<open>s.slice(a, b)\<close>: a negative bound counts from the end, both bounds are clamped.\<close>

definition slice :: "string \<Rightarrow> int \<Rightarrow> int \<Rightarrow> string" where
  "slice s a b =
     (let len = int (length s);
          lo = (if a < 0 then max (len + a) 0 else min a len);
          hi = (if b < 0 then max (len + b) 0 else min b len)
      in take (nat (hi - lo)) (drop (nat lo) s))"

text \<open>\<open>s.slice(a)\<close>: up to the end of the string.\<close>

definition sliceFrom :: "string \<Rightarrow> int \<Rightarrow> string" where
  "sliceFrom s a = slice s a (int (length s))"

text \<open>
  \<open>parseInt(s, 10)\<close> of the language: leading white space is skipped, one sign is read, then
  the longest run of decimal digits; no digit gives \<open>NaN\<close> (here \<open>None\<close>). The result is kept
  as a mathematical integer.
\<close>

definition isStrWhiteSpace :: "char \<Rightarrow> bool" where
  "isStrWhiteSpace c = (of_char c \<in> {9, 10, 11, 12, 13, 32, 160 :: nat})"

definition isDigit :: "char \<Rightarrow> bool" where
  "isDigit c = (48 \<le> (of_char c :: nat) \<and> (of_char c :: nat) \<le> 57)"

definition digitsValue :: "string \<Rightarrow> int" where
  "digitsValue z = foldl (\<lambda>acc c. 10 * acc + (int (of_char c) - 48)) 0 z"

definition parseInt10 :: "string \<Rightarrow> int option" where
  "parseInt10 s =
     (let t = dropWhile isStrWhiteSpace s;
          neg = (t \<noteq> [] \<and> hd t = CHR ''-'');
          u = (if t \<noteq> [] \<and> (hd t = CHR ''-'' \<or> hd t = CHR ''+'') then tl t else t);
          z = takeWhile isDigit u
      in if z = [] then None else Some (if neg then - digitsValue z else digitsValue z))"

section \<open>The event stream decoder (\<open>createParser2\<close>)\<close>

text \<open>What \<open>onParse\<close> receives: an event, or a reconnect interval.\<close>

datatype emitted =
  Event (ev_id: "string option") (ev_event: "string option") (ev_data: string)
  | ReconnectInterval int

text \<open>The seven variables of the closure that \<open>createParser2\<close> returns.\<close>

record parser =
  isFirstChunk :: bool
  buffer :: string
  startingPosition :: int
  startingFieldLength :: int
  eventId :: "string option"
  eventName :: "string option"
  data :: string

text \<open>\<open>reset()\<close>; \<open>createParser2\<close> calls it once, so this is also the fresh decoder.\<close>

definition reset :: parser where
  "reset = \<lparr>isFirstChunk = True, buffer = [], startingPosition = 0,
            startingFieldLength = - 1, eventId = None, eventName = None, data = []\<rparr>"

definition createParser2 :: parser where
  "createParser2 = reset"

definition BOM :: "nat list" where
  "BOM = [239, 187, 191]"

definition hasBom :: "string \<Rightarrow> bool" where
  "hasBom buf = list_all (\<lambda>(charCode, index). charCodeAt buf (int index) = Some charCode)
                         (zip BOM [0 ..< length BOM])"

text \<open>
  \<open>parseEventStreamLine(lineBuffer, index, fieldLength, lineLength)\<close>: the new decoder
  variables and what was handed to \<open>onParse\<close>. \<open>eventName || void 0\<close> turns the empty name
  into \<open>undefined\<close>.
\<close>

definition parseEventStreamLine ::
    "parser \<Rightarrow> string \<Rightarrow> int \<Rightarrow> int \<Rightarrow> int \<Rightarrow> parser \<times> emitted list" where
  "parseEventStreamLine p lineBuffer index fieldLength lineLength =
     (if lineLength = 0 then
        (if length (data p) > 0 then
           (p\<lparr>data := [], eventId := None, eventName := None\<rparr>,
            [Event (eventId p)
                   (if eventName p = Some [] then None else eventName p)
                   (slice (data p) 0 (- 1))])
         else (p\<lparr>eventName := None\<rparr>, []))
      else
        (let noValue = fieldLength < 0;
             field = slice lineBuffer index (index + (if noValue then lineLength else fieldLength));
             step = (if noValue then lineLength
                     else if charAt lineBuffer (index + fieldLength + 1) = Some CHR '' ''
                          then fieldLength + 2
                          else fieldLength + 1);
             position = index + step;
             valueLength = lineLength - step;
             val = slice lineBuffer position (position + valueLength)
         in if field = ''data'' then (p\<lparr>data := data p @ val @ [LF]\<rparr>, [])
            else if field = ''event'' then (p\<lparr>eventName := Some val\<rparr>, [])
            else if field = ''id'' \<and> CHR 0x00 \<notin> set val then (p\<lparr>eventId := Some val\<rparr>, [])
            else if field = ''retry'' then
              (case parseInt10 val of
                 Some retry \<Rightarrow> (p, [ReconnectInterval retry])
               | None \<Rightarrow> (p, []))
            else (p, [])))"

text \<open>
  The \<open>for\<close> loop of \<open>feed\<close>: it runs \<open>index\<close> from its start value while no line end has been
  found, and yields \<open>lineLength\<close>, \<open>fieldLength\<close> and \<open>discardTrailingNewline\<close>.
\<close>

function scanLine :: "string \<Rightarrow> int \<Rightarrow> int \<Rightarrow> int \<Rightarrow> int \<Rightarrow> bool \<Rightarrow> int \<times> int \<times> bool" where
  "scanLine buf position index fieldLength lineLength discardTrailingNewline =
     (if lineLength < 0 \<and> index < int (length buf) then
        (if charAt buf index = Some CHR '':'' \<and> fieldLength < 0 then
           scanLine buf position (index + 1) (index - position) lineLength discardTrailingNewline
         else if charAt buf index = Some CR then
           scanLine buf position (index + 1) fieldLength (index - position) True
         else if charAt buf index = Some LF then
           scanLine buf position (index + 1) fieldLength (index - position) discardTrailingNewline
         else scanLine buf position (index + 1) fieldLength lineLength discardTrailingNewline)
      else (lineLength, fieldLength, discardTrailingNewline))"
  by pat_completeness auto
termination
  by (relation "measure (\<lambda>(buf, position, index, fieldLength, lineLength, d).
                   nat (int (length buf) - index))") auto

declare scanLine.simps [simp del]

text \<open>
  The \<open>while\<close> loop of \<open>feed\<close> over the buffer \<open>buf\<close> (which the loop never changes): the
  decoder variables, the final \<open>position\<close>, and what was handed to \<open>onParse\<close>, in order.
\<close>

function feedLoop :: "string \<Rightarrow> parser \<Rightarrow> int \<Rightarrow> bool \<Rightarrow> parser \<times> int \<times> emitted list" where
  "feedLoop buf p position discardTrailingNewline =
     (if position < int (length buf) then
        (let position1 = (if discardTrailingNewline \<and> charAt buf position = Some LF
                          then position + 1 else position)
         in case scanLine buf position1 (startingPosition p) (startingFieldLength p) (- 1) False of
              (lineLength, fieldLength, discard1) \<Rightarrow>
                if lineLength < 0 then
                  (p\<lparr>startingPosition := int (length buf) - position1,
                     startingFieldLength := fieldLength\<rparr>, position1, [])
                else
                  (case parseEventStreamLine
                          (p\<lparr>startingPosition := 0, startingFieldLength := - 1\<rparr>)
                          buf position1 fieldLength lineLength of
                     (p2, out) \<Rightarrow>
                       (case feedLoop buf p2 (position1 + lineLength + 1) discard1 of
                          (p3, position3, out3) \<Rightarrow> (p3, position3, out @ out3))))
      else (p, position, []))"
  by pat_completeness auto
termination
  by (relation "measure (\<lambda>(buf, p, position, d). nat (int (length buf) - position))")
     (auto split: if_splits)

declare feedLoop.simps [simp del]

text \<open>\<open>feed(chunk)\<close>: the new decoder variables and what was handed to \<open>onParse\<close>.\<close>

definition feed :: "parser \<Rightarrow> string \<Rightarrow> parser \<times> emitted list" where
  "feed p chunk =
     (let buffer0 = (if buffer p \<noteq> [] then buffer p @ chunk else chunk);
          buffer1 = (if isFirstChunk p \<and> hasBom buffer0
                     then sliceFrom buffer0 (int (length BOM)) else buffer0)
      in case feedLoop buffer1 (p\<lparr>buffer := buffer1, isFirstChunk := False\<rparr>) 0 False of
           (p2, position, out) \<Rightarrow>
             (if position = int (length buffer1) then p2\<lparr>buffer := []\<rparr>
              else if position > 0 then p2\<lparr>buffer := sliceFrom buffer1 position\<rparr>
              else p2,
              out))"

text \<open>Feeding the chunks of a stream one after the other, collecting what is emitted.\<close>

fun feedAll :: "parser \<Rightarrow> string list \<Rightarrow> parser \<times> emitted list" where
  "feedAll p [] = (p, [])"
| "feedAll p (chunk # chunks) =
     (case feed p chunk of
        (p1, out) \<Rightarrow> (case feedAll p1 chunks of (p2, out2) \<Rightarrow> (p2, out @ out2)))"

section \<open>The line-by-line reading of the decoder\<close>

text \<open>
  The decoder as the specification words it: the text is cut at each line feed, every complete
  line is dispatched on its own, and the unfinished last line is kept. \<open>firstColon\<close> is the
  offset of the first colon of a line (negative when there is none), \<open>dispatchLine\<close> is
  \<open>parseEventStreamLine\<close> on a line standing alone, and \<open>decodeLines p acc text\<close> reads
  \<open>text\<close> with \<open>acc\<close> the part of the current line already seen; it yields the decoder
  variables, the unfinished line and the emitted values.
\<close>

definition firstColon :: "string \<Rightarrow> int" where
  "firstColon line =
     (if CHR '':'' \<in> set line then int (length (takeWhile (\<lambda>c. c \<noteq> CHR '':'') line)) else - 1)"




text \<open>The four scanning variables of a decoder, set at once.\<close>

definition frame :: "bool \<Rightarrow> string \<Rightarrow> int \<Rightarrow> int \<Rightarrow> parser \<Rightarrow> parser" where
  "frame b buf sp sf p =
     p\<lparr>isFirstChunk := b, buffer := buf, startingPosition := sp, startingFieldLength := sf\<rparr>"

text \<open>What \<open>feed\<close> scans: the kept text and the chunk, less the byte order mark on a first chunk.\<close>

definition scanned :: "parser \<Rightarrow> string \<Rightarrow> string" where
  "scanned p chunk =
     (if isFirstChunk p \<and> hasBom (buffer p @ chunk) then drop 3 (buffer p @ chunk)
      else buffer p @ chunk)"


text \<open>
  The lines of a text as the specification cuts it: a line ends at a line feed, or at a carriage
  return together with the line feed that follows it when there is one. \<open>completeLines acc text\<close>
  lists the lines of \<open>text\<close> that have their line end, \<open>acc\<close> being the part of the current
  line already read. A blank line is an empty one.
\<close>

fun completeLines :: "string \<Rightarrow> string \<Rightarrow> string list" where
  "completeLines acc [] = []"
| "completeLines acc [c] = (if c = LF \<or> c = CR then [acc] else [])"
| "completeLines acc (c # d # cs) =
     (if c = CR \<and> d = LF then acc # completeLines [] cs
      else if c = LF \<or> c = CR then acc # completeLines [] (d # cs)
      else completeLines (acc @ [c]) (d # cs))"

definition hasBlankLine :: "string \<Rightarrow> bool" where
  "hasBlankLine text \<longleftrightarrow> [] \<in> set (completeLines [] text)"


section \<open>JavaScript values\<close>

text \<open>
  What \<open>JSON.parse\<close> yields. A number is kept by its exact value, a rational; an object is
  the list of its properties. \<open>undefined\<close> is \<open>None\<close> of \<open>json option\<close>.
\<close>

datatype json =
  JNull | JBool bool | JNum rat | JStr string | JArr "json list" | JObj "(string \<times> json) list"

text \<open>Truthiness, as \<open>if (x)\<close>, \<open>!x\<close> and \<open>x || y\<close> test it.\<close>

fun truthy :: "json \<Rightarrow> bool" where
  "truthy JNull = False"
| "truthy (JBool b) = b"
| "truthy (JNum n) = (n \<noteq> 0)"
| "truthy (JStr s) = (s \<noteq> [])"
| "truthy (JArr xs) = True"
| "truthy (JObj kvs) = True"

definition truthyO :: "json option \<Rightarrow> bool" where
  "truthyO x = (case x of None \<Rightarrow> False | Some v \<Rightarrow> truthy v)"

text \<open>\<open>x || y\<close>.\<close>

definition orElse :: "json option \<Rightarrow> json option \<Rightarrow> json option" where
  "orElse x y = (if truthyO x then x else y)"

text \<open>
  \<open>v.k\<close> for one of the property names the code reads (\<open>conversation_id\<close>, \<open>message\<close>,
  \<open>id\<close>, \<open>content\<close>, \<open>parts\<close>) on a value that is not \<open>null\<close>: only an object has them.
\<close>

fun getProp :: "json \<Rightarrow> string \<Rightarrow> json option" where
  "getProp (JObj kvs) k = map_of kvs k"
| "getProp v k = None"

text \<open>\<open>v[0]\<close> on a value that is not \<open>null\<close>.\<close>

fun elem0 :: "json \<Rightarrow> json option" where
  "elem0 (JArr (x # xs)) = Some x"
| "elem0 (JStr (c # cs)) = Some (JStr [c])"
| "elem0 (JObj kvs) = map_of kvs ''0''"
| "elem0 v = None"

text \<open>The guarded reads \<open>x == null ? void 0 : x.k\<close> and \<open>x == null ? void 0 : x[0]\<close>.\<close>

fun optProp :: "json option \<Rightarrow> string \<Rightarrow> json option" where
  "optProp None k = None"
| "optProp (Some JNull) k = None"
| "optProp (Some v) k = getProp v k"

fun optElem0 :: "json option \<Rightarrow> json option" where
  "optElem0 None = None"
| "optElem0 (Some JNull) = None"
| "optElem0 (Some v) = elem0 v"

text \<open>
  An error object: its name and message, and the fields \<open>statusCode\<close>, \<open>status\<close>,
  \<open>statusText\<close>, \<open>response.statusCode\<close> and \<open>response.statusText\<close> that the handlers read.
\<close>

record jserror =
  errName :: string
  errMessage :: string
  errStatusCode :: "json option"
  errStatus :: "json option"
  errStatusText :: "json option"
  errResponseStatusCode :: "json option"
  errResponseStatusText :: "json option"

definition plainError :: "string \<Rightarrow> string \<Rightarrow> jserror" where
  "plainError n m = \<lparr>errName = n, errMessage = m, errStatusCode = None, errStatus = None,
                      errStatusText = None, errResponseStatusCode = None,
                      errResponseStatusText = None\<rparr>"

text \<open>\<open>err.toString()\<close> of an error object.\<close>

definition errToString :: "jserror \<Rightarrow> string" where
  "errToString e =
     (if errName e = [] then errMessage e
      else if errMessage e = [] then errName e
      else errName e @ '': '' @ errMessage e)"

text \<open>\<open>s.toLowerCase()\<close> on the code units below 256.\<close>

definition lowerChar :: "char \<Rightarrow> char" where
  "lowerChar c =
     (let n = (of_char c :: nat)
      in if (65 \<le> n \<and> n \<le> 90) \<or> (192 \<le> n \<and> n \<le> 222 \<and> n \<noteq> 215) then char_of (n + 32) else c)"

definition toLowerCase :: "string \<Rightarrow> string" where
  "toLowerCase s = map lowerChar s"

text \<open>A number as a template literal prints it.\<close>

definition digitChar :: "nat \<Rightarrow> char" where
  "digitChar d = char_of (48 + d)"

function showNat :: "nat \<Rightarrow> string" where
  "showNat n = (if n < 10 then [digitChar n] else showNat (n div 10) @ [digitChar (n mod 10)])"
  by pat_completeness auto
termination
  by (relation "measure id") auto

declare showNat.simps [simp del]

definition showInt :: "int \<Rightarrow> string" where
  "showInt i = (if i < 0 then ''-'' @ showNat (nat (- i)) else showNat (nat i))"

text \<open>
  A value of type number: not a number, a finite value (integers are enough for a count of
  milliseconds), or an infinity.
\<close>

datatype jsnumber = NaN | Fin int | PosInf | NegInf

fun mathSign :: "jsnumber \<Rightarrow> jsnumber" where
  "mathSign NaN = NaN"
| "mathSign (Fin n) = Fin (sgn n)"
| "mathSign PosInf = Fin 1"
| "mathSign NegInf = Fin (- 1)"

fun truthyNumber :: "jsnumber \<Rightarrow> bool" where
  "truthyNumber NaN = False"
| "truthyNumber (Fin n) = (n \<noteq> 0)"
| "truthyNumber PosInf = True"
| "truthyNumber NegInf = True"

fun showNumber :: "jsnumber option \<Rightarrow> string" where
  "showNumber None = ''undefined''"
| "showNumber (Some NaN) = ''NaN''"
| "showNumber (Some (Fin n)) = showInt n"
| "showNumber (Some PosInf) = ''Infinity''"
| "showNumber (Some NegInf) = ''-Infinity''"

section \<open>The deadline wrapper (\<open>pTimeout2\<close>)\<close>

text \<open>
  A promise is pending (\<open>None\<close>) or settled, once and for all, as fulfilled or rejected. The
  value it is rejected with is an error object, or it is \<open>null\<close> or \<open>undefined\<close>
  (\<open>RejectedNullish\<close>), on which no property can be read.
\<close>

datatype 'a settled = Fulfilled 'a | Rejected jserror | RejectedNullish

text \<open>
  The options of \<open>pTimeout2\<close>. \<open>milliseconds\<close> is \<open>None\<close> when the value passed is not of
  type number. \<open>fallback\<close>, when given, is held by what calling it does: return a value or
  throw. \<open>message\<close> is absent, a string, or an error object. \<open>signal\<close>, when given, says
  whether it is aborted already and carries the reason of its abort as \<open>getAbortedReason\<close>
  reads it.
\<close>

datatype timeout_message = NoMessage | MessageString string | MessageError jserror

record abort_signal =
  aborted :: bool
  abortedReason :: jserror

record 'a timeout_options =
  milliseconds :: "jsnumber option"
  fallback :: "'a settled option"
  message :: timeout_message
  signal :: "abort_signal option"

text \<open>
  The promise \<open>cancelablePromise\<close> that \<open>pTimeout2\<close> returns, with what surrounds it: how it
  is settled, the timer, how often \<open>promise.cancel()\<close> has been called, whether the wrapper
  waits for the operation (\<open>await promise\<close>), and whether it listens to the signal.
\<close>

datatype timer = NoTimer | Armed | Fired | Cleared

record 'a cancelable =
  settledAs :: "'a settled option"
  timerState :: timer
  cancelCalls :: nat
  awaiting :: bool
  listening :: bool

text \<open>\<open>resolve\<close> and \<open>reject\<close>: only the first call settles the promise.\<close>

definition settle :: "'a settled \<Rightarrow> 'a cancelable \<Rightarrow> 'a cancelable" where
  "settle r c = (if settledAs c = None then c\<lparr>settledAs := Some r\<rparr> else c)"

definition invalidMilliseconds :: "jsnumber option \<Rightarrow> jserror" where
  "invalidMilliseconds ms =
     plainError ''TypeError''
       (''Expected `milliseconds` to be a positive number, got `'' @ showNumber ms @ ''`'')"

text \<open>
  The executor of \<open>cancelablePromise\<close>, up to the point where it has armed the timer and
  started to wait for the operation.
\<close>

definition pTimeout2 :: "'a timeout_options \<Rightarrow> 'a cancelable" where
  "pTimeout2 options =
     (case milliseconds options of
        None \<Rightarrow>
          \<lparr>settledAs = Some (Rejected (invalidMilliseconds None)), timerState = NoTimer,
           cancelCalls = 0, awaiting = False, listening = False\<rparr>
      | Some ms \<Rightarrow>
          if mathSign ms \<noteq> Fin 1 then
            \<lparr>settledAs = Some (Rejected (invalidMilliseconds (Some ms))), timerState = NoTimer,
             cancelCalls = 0, awaiting = False, listening = False\<rparr>
          else if ms = PosInf then
            \<lparr>settledAs = None, timerState = NoTimer, cancelCalls = 0, awaiting = True,
             listening = False\<rparr>
          else
            (let c = \<lparr>settledAs = None, timerState = Armed, cancelCalls = 0, awaiting = True,
                      listening = (signal options \<noteq> None)\<rparr>
             in case signal options of
                  None \<Rightarrow> c
                | Some s \<Rightarrow> if aborted s then settle (Rejected (abortedReason s)) c else c))"

text \<open>The error of a timeout: \<open>message\<close> itself when it is an error object.\<close>

definition timeoutError :: "'a timeout_options \<Rightarrow> jserror" where
  "timeoutError options =
     (case message options of
        MessageError e \<Rightarrow> e
      | MessageString m \<Rightarrow> plainError ''TimeoutError'' m
      | NoMessage \<Rightarrow>
          plainError ''TimeoutError''
            (''Promise timed out after '' @ showNumber (milliseconds options) @ '' milliseconds''))"

text \<open>
  What can happen to the wrapper afterwards: the operation settles, the timer fires, the
  signal aborts. \<open>hasCancel\<close> says whether \<open>promise.cancel\<close> is a function. The timer
  callback runs only for an armed timer; the wait for the operation ends with its first
  settlement, which clears the timer.
\<close>

datatype 'a happening = OperationSettles "'a settled" | TimerFires | SignalAborts jserror

definition timerCallback :: "bool \<Rightarrow> 'a timeout_options \<Rightarrow> 'a cancelable \<Rightarrow> 'a cancelable" where
  "timerCallback hasCancel options c =
     (let c1 = c\<lparr>timerState := Fired\<rparr>
      in case fallback options of
           Some r \<Rightarrow> settle r c1
         | None \<Rightarrow>
             settle (Rejected (timeoutError options))
               (if hasCancel then c1\<lparr>cancelCalls := cancelCalls c1 + 1\<rparr> else c1))"

definition clearTimeout :: "'a cancelable \<Rightarrow> 'a cancelable" where
  "clearTimeout c = (if timerState c = Armed then c\<lparr>timerState := Cleared\<rparr> else c)"

fun happen :: "bool \<Rightarrow> 'a timeout_options \<Rightarrow> 'a cancelable \<Rightarrow> 'a happening \<Rightarrow> 'a cancelable" where
  "happen hasCancel options c (OperationSettles r) =
     (if awaiting c then clearTimeout ((settle r c)\<lparr>awaiting := False\<rparr>) else c)"
| "happen hasCancel options c TimerFires =
     (if timerState c = Armed then timerCallback hasCancel options c else c)"
| "happen hasCancel options c (SignalAborts reason) =
     (if listening c then settle (Rejected reason) c else c)"

declare happen.simps [simp del]

definition happenAll ::
    "bool \<Rightarrow> 'a timeout_options \<Rightarrow> 'a cancelable \<Rightarrow> 'a happening list \<Rightarrow> 'a cancelable" where
  "happenAll hasCancel options c hs = foldl (happen hasCancel options) c hs"


section \<open>One exchange inside the page (\<open>browserPostEventStream\<close>)\<close>

text \<open>
  The three variables \<open>response\<close>, \<open>conversationId\<close> and \<open>messageId\<close> of one call.
\<close>

record exchange_vars =
  response :: json
  conversationId :: "json option"
  messageId :: "json option"

text \<open>
  What the call returns: the snapshot \<open>{response, conversationId, messageId}\<close>, or the error
  object \<open>{error: {message, statusCode, statusText}, conversationId, messageId}\<close>.
\<close>

datatype exchange_result =
  Snapshot (snapResponse: json) (snapConversationId: "json option") (snapMessageId: "json option")
  | ErrorObject (errorMessage: string) (errorStatusCode: "json option")
      (errorStatusText: "json option") (errorConversationId: "json option")
      (errorMessageId: "json option")

fun resultConversationId :: "exchange_result \<Rightarrow> json option" where
  "resultConversationId (Snapshot r c m) = c"
| "resultConversationId (ErrorObject msg sc st c m) = c"

fun resultMessageId :: "exchange_result \<Rightarrow> json option" where
  "resultMessageId (Snapshot r c m) = m"
| "resultMessageId (ErrorObject msg sc st c m) = m"

text \<open>The object handed to \<open>window.ChatGPTAPIBrowserOnProgress\<close>.\<close>

record progress =
  progOrigMessageId :: "json option"
  progResponse :: json
  progConversationId :: "json option"
  progMessageId :: "json option"

text \<open>
  What one call of \<open>onMessage\<close> does besides updating the variables: it resolves the
  promise, warns of a payload that does not parse and returns, returns on a falsy payload, or
  runs to its end, having called the progress function or not.
\<close>

datatype message_effect =
  Resolves exchange_result | ParseWarning | NoPayload | Processed "progress option"

text \<open>
  \<open>onMessage(data)\<close> of \<open>browserPostEventStream\<close>. \<open>JSON.parse\<close> is the parameter \<open>parse\<close>
  (\<open>None\<close> when it throws); \<open>hasSink\<close> says whether \<open>window.ChatGPTAPIBrowserOnProgress\<close> is
  set; \<open>orig\<close> is \<open>origMessageId\<close>.
\<close>

definition onMessage ::
    "(string \<Rightarrow> json option) \<Rightarrow> bool \<Rightarrow> json option \<Rightarrow> exchange_vars \<Rightarrow> string
     \<Rightarrow> exchange_vars \<times> message_effect" where
  "onMessage parse hasSink orig v d =
     (if d = ''[DONE]'' then (v, Resolves (Snapshot (response v) (conversationId v) (messageId v)))
      else case parse d of
        None \<Rightarrow> (v, ParseWarning)
      | Some convoResponseEvent \<Rightarrow>
          if \<not> truthy convoResponseEvent then (v, NoPayload)
          else
            (let v1 = (if truthyO (getProp convoResponseEvent ''conversation_id'')
                       then v\<lparr>conversationId := getProp convoResponseEvent ''conversation_id''\<rparr>
                       else v);
                 v2 = (if truthyO (optProp (getProp convoResponseEvent ''message'') ''id'')
                       then v1\<lparr>messageId := optProp (getProp convoResponseEvent ''message'') ''id''\<rparr>
                       else v1);
                 partialResponse =
                   optElem0 (optProp (optProp (getProp convoResponseEvent ''message'') ''content'')
                              ''parts'')
             in case partialResponse of
                  None \<Rightarrow> (v2, Processed None)
                | Some text \<Rightarrow>
                    if truthy text then
                      (v2\<lparr>response := text\<rparr>,
                       Processed (if hasSink
                                  then Some \<lparr>progOrigMessageId = orig, progResponse = text,
                                              progConversationId = conversationId v2,
                                              progMessageId = messageId v2\<rparr>
                                  else None))
                    else (v2, Processed None)))"

text \<open>A \<open>JSON.parse\<close> given by a table of the payloads it parses; it throws on any other.\<close>

definition tableParse :: "(string \<times> json) list \<Rightarrow> string \<Rightarrow> json option" where
  "tableParse table = map_of table"

text \<open>
  The callback given to \<open>createParser2\<close>, over what one \<open>feed\<close> emitted: \<open>onMessage\<close> on the
  data of each event, a reconnect interval being dropped. It yields the variables, the value
  of the first \<open>resolve\<close> (if there was one) with the variables as they were then, and the
  progress calls made, in order.
\<close>

fun onParseAll ::
    "(string \<Rightarrow> json option) \<Rightarrow> bool \<Rightarrow> json option \<Rightarrow> exchange_vars \<Rightarrow> emitted list
     \<Rightarrow> exchange_vars \<times> (exchange_result \<times> exchange_vars) option \<times> progress list" where
  "onParseAll parse hasSink orig v [] = (v, None, [])"
| "onParseAll parse hasSink orig v (ReconnectInterval r # es) = onParseAll parse hasSink orig v es"
| "onParseAll parse hasSink orig v (Event i n d # es) =
     (case onMessage parse hasSink orig v d of
        (v1, eff) \<Rightarrow>
          (case onParseAll parse hasSink orig v1 es of
             (v2, resolved, calls) \<Rightarrow>
               (v2,
                (case eff of Resolves snap \<Rightarrow> Some (snap, v1) | _ \<Rightarrow> resolved),
                (case eff of Processed (Some p) \<Rightarrow> p # calls | _ \<Rightarrow> calls))))"

text \<open>
  A call returns a value to its caller, throws a \<open>TypeError\<close> to its caller, or never does
  either.
\<close>

datatype 'a returning = Returns 'a | ThrowsTypeError | NeverReturns

text \<open>
  The \<open>catch\<close> block of \<open>browserPostEventStream\<close>. The value caught is an error object,
  or \<open>None\<close> for \<open>null\<close> and \<open>undefined\<close>: then the first statement of the block,
  \<open>err.toString()\<close>, throws a \<open>TypeError\<close>, which nothing catches. For an error object
  the block returns the snapshot or the error object.
\<close>

definition caught :: "exchange_vars \<Rightarrow> jserror option \<Rightarrow> exchange_result returning" where
  "caught v thrown =
     (case thrown of
        None \<Rightarrow> ThrowsTypeError
      | Some err \<Rightarrow>
          (let errMessageL = toLowerCase (errToString err)
           in if truthy (response v) \<and>
                 (errMessageL = ''error: typeerror: terminated'' \<or>
                  errMessageL = ''typeerror: terminated'')
              then Returns (Snapshot (response v) (conversationId v) (messageId v))
              else Returns
                     (ErrorObject (errToString err)
                        (orElse (orElse (errStatusCode err) (errStatus err))
                           (errResponseStatusCode err))
                        (orElse (errStatusText err) (errResponseStatusText err))
                        (conversationId v) (messageId v))))"

text \<open>
  What the page sees after \<open>fetch\<close> has answered with an ok status, in the order in which it
  happens, while the body is read: a chunk of the body arrives, the timer of the deadline
  fires, or a progress call that was made rejects, with an error object or with \<open>null\<close> or
  \<open>undefined\<close> (\<open>None\<close>). Then the body ends: the reader reports \<open>done\<close>, or a read fails
  with an error.
\<close>

datatype occurrence = Chunk string | Deadline | ProgressRejects "jserror option"

datatype body_end = BodyDone | ReadFails jserror

text \<open>\<open>reject(err)\<close> in the \<open>catch\<close> block of \<open>onMessage\<close>.\<close>

definition rejectWith :: "jserror option \<Rightarrow> 'a settled" where
  "rejectWith thrown = (case thrown of None \<Rightarrow> RejectedNullish | Some err \<Rightarrow> Rejected err)"

text \<open>The options that \<open>browserPostEventStream\<close> gives to \<open>pTimeout2\<close>.\<close>

definition timeoutOptions :: "jsnumber \<Rightarrow> exchange_result timeout_options" where
  "timeoutOptions timeoutMs =
     \<lparr>milliseconds = Some timeoutMs, fallback = None,
      message = MessageString ''ChatGPT timed out waiting for response'', signal = None\<rparr>"

text \<open>
  \<open>responseP\<close> settles as \<open>r\<close>: without a deadline the call \<open>await\<close>s it directly; with one,
  the wrapper hears of it, and the call \<open>await\<close>s the wrapper. A rejection goes through the
  \<open>catch\<close> block.
\<close>

definition finish :: "exchange_vars \<Rightarrow> exchange_result settled \<Rightarrow> exchange_result returning" where
  "finish v r =
     (case r of
        Fulfilled snap \<Rightarrow> Returns snap
      | Rejected err \<Rightarrow> caught v (Some err)
      | RejectedNullish \<Rightarrow> caught v None)"

definition deliver ::
    "exchange_vars \<Rightarrow> jsnumber option \<Rightarrow> exchange_result cancelable option
     \<Rightarrow> exchange_result settled \<Rightarrow> exchange_result returning" where
  "deliver v timeoutMs wrapper r =
     (case (timeoutMs, wrapper) of
        (Some ms, Some w) \<Rightarrow>
          (case settledAs (happen True (timeoutOptions ms) w (OperationSettles r)) of
             Some r1 \<Rightarrow> finish v r1
           | None \<Rightarrow> NeverReturns)
      | _ \<Rightarrow> finish v r)"

text \<open>
  The body is over. The loop over the body runs inside the \<open>async\<close> executor given to
  \<open>new Promise\<close>, which drops what the executor returns and what it throws: the end of the
  loop calls neither \<open>resolve\<close> nor \<open>reject\<close>, and the error of a failed read rejects the
  executor's own promise only. So \<open>responseP\<close> stays pending either way; the call returns
  when an armed timer fires, and never otherwise.
\<close>

definition bodyOver ::
    "jsnumber option \<Rightarrow> exchange_result cancelable option \<Rightarrow> exchange_vars \<Rightarrow> progress list
     \<Rightarrow> exchange_result returning \<times> exchange_vars \<times> progress list" where
  "bodyOver timeoutMs wrapper v calls =
     (case (timeoutMs, wrapper) of
        (Some ms, Some w) \<Rightarrow>
          (if timerState w = Armed then
             (case settledAs (happen True (timeoutOptions ms) w TimerFires) of
                Some r \<Rightarrow> (finish v r, v, calls)
              | None \<Rightarrow> (NeverReturns, v, calls))
           else (NeverReturns, v, calls))
      | _ \<Rightarrow> (NeverReturns, v, calls))"

text \<open>
  The body is read: the decoder, the variables, the wrapper (when there is a deadline), the
  progress calls made; then what happens next, and how the body ends. The result is what the
  call returns, the variables at that moment, and the progress calls made.
\<close>

fun readBody ::
    "(string \<Rightarrow> json option) \<Rightarrow> bool \<Rightarrow> json option \<Rightarrow> jsnumber option
     \<Rightarrow> exchange_result cancelable option \<Rightarrow> body_end \<Rightarrow> parser \<Rightarrow> exchange_vars
     \<Rightarrow> progress list \<Rightarrow> occurrence list
     \<Rightarrow> exchange_result returning \<times> exchange_vars \<times> progress list" where
  "readBody parse hasSink orig timeoutMs wrapper ending p v calls [] =
     (case ending of
        BodyDone \<Rightarrow> bodyOver timeoutMs wrapper v calls
      | ReadFails err \<Rightarrow> bodyOver timeoutMs wrapper v calls)"
| "readBody parse hasSink orig timeoutMs wrapper ending p v calls (Chunk str # rest) =
     (case feed p str of
        (p1, out) \<Rightarrow>
          (case onParseAll parse hasSink orig v out of
             (v1, resolved, made) \<Rightarrow>
               (case resolved of
                  Some (snap, v0) \<Rightarrow>
                    (deliver v0 timeoutMs wrapper (Fulfilled snap), v0, calls @ made)
                | None \<Rightarrow>
                    readBody parse hasSink orig timeoutMs wrapper ending p1 v1 (calls @ made) rest)))"
| "readBody parse hasSink orig timeoutMs wrapper ending p v calls (Deadline # rest) =
     (case (timeoutMs, wrapper) of
        (Some ms, Some w) \<Rightarrow>
          (if timerState w = Armed then
             (case settledAs (happen True (timeoutOptions ms) w TimerFires) of
                Some r \<Rightarrow> (finish v r, v, calls)
              | None \<Rightarrow> readBody parse hasSink orig timeoutMs wrapper ending p v calls rest)
           else readBody parse hasSink orig timeoutMs wrapper ending p v calls rest)
      | _ \<Rightarrow> readBody parse hasSink orig timeoutMs wrapper ending p v calls rest)"
| "readBody parse hasSink orig timeoutMs wrapper ending p v calls (ProgressRejects thrown # rest) =
     (if calls \<noteq> [] then (deliver v timeoutMs wrapper (rejectWith thrown), v, calls)
      else readBody parse hasSink orig timeoutMs wrapper ending p v calls rest)"

text \<open>
  What \<open>fetch\<close> does: it rejects, with an error object (a \<open>TypeError\<close>, or the
  \<open>AbortError\<close> of \<open>abortController.abort()\<close>, which is called with no reason), or it
  answers with a status and a status text.
\<close>

datatype fetched = FetchRejects jserror | Responds nat string

text \<open>\<open>res.ok\<close>.\<close>

definition statusOk :: "nat \<Rightarrow> bool" where
  "statusOk status \<longleftrightarrow> 200 \<le> status \<and> status \<le> 299"

text \<open>
  \<open>browserPostEventStream(url2, accessToken, body, timeoutMs)\<close>. Of \<open>body\<close> the call reads
  \<open>body.conversation_id\<close> and \<open>body.messages[0].id\<close>; \<open>timeoutMs\<close> is \<open>None\<close> when
  \<open>undefined\<close>. The deadline is set up only for a truthy \<open>timeoutMs\<close>; a wrapper that is
  rejected at once makes the call return through the \<open>catch\<close> block before any chunk is read.
\<close>

definition browserPostEventStream ::
    "(string \<Rightarrow> json option) \<Rightarrow> bool \<Rightarrow> json option \<Rightarrow> json option \<Rightarrow> jsnumber option
     \<Rightarrow> fetched \<Rightarrow> occurrence list \<Rightarrow> body_end
     \<Rightarrow> exchange_result returning \<times> exchange_vars \<times> progress list" where
  "browserPostEventStream parse hasSink body_conversation_id body_message_id timeoutMs res happens
       ending =
     (let v = \<lparr>response = JStr [], conversationId = body_conversation_id,
               messageId = body_message_id\<rparr>
      in case res of
           FetchRejects err \<Rightarrow> (caught v (Some err), v, [])
         | Responds status statusText \<Rightarrow>
             if \<not> statusOk status then
               (Returns (ErrorObject
                           (''ChatGPTAPI error '' @
                              (if status \<noteq> 0 then showNat status else statusText))
                           (Some (JNum (of_nat status))) (Some (JStr statusText))
                           (conversationId v) (messageId v)), v, [])
             else
               (case timeoutMs of
                  None \<Rightarrow> readBody parse hasSink body_message_id None None ending createParser2 v [] happens
                | Some ms \<Rightarrow>
                    if truthyNumber ms then
                      (let w = pTimeout2 (timeoutOptions ms)
                       in case settledAs w of
                            Some r \<Rightarrow> (finish v r, v, [])
                          | None \<Rightarrow>
                              readBody parse hasSink body_message_id (Some ms) (Some w) ending
                                createParser2 v [] happens)
                    else readBody parse hasSink body_message_id None None ending createParser2 v [] happens))"


text \<open>
  Two progress payloads for a scripted exchange, as \<open>JSON.parse\<close> reads them, and the chunks
  that carry them: the first names the conversation and gives the text \<open>Hel\<close>, the second
  gives the text \<open>Hello\<close>.
\<close>

definition twoPayloads :: "string \<Rightarrow> json option" where
  "twoPayloads =
     tableParse
       [(''first'',
         JObj [(''conversation_id'', JStr ''c1''),
               (''message'', JObj [(''id'', JStr ''m1''),
                                   (''content'', JObj [(''parts'', JArr [JStr ''Hel''])])])]),
        (''second'',
         JObj [(''message'', JObj [(''id'', JStr ''m1''),
                                   (''content'', JObj [(''parts'', JArr [JStr ''Hello''])])])])]"

definition twoSnapshots :: "occurrence list" where
  "twoSnapshots = [Chunk (''data: first'' @ [LF, LF]), Chunk (''data: second'' @ [LF, LF])]"

text \<open>
  A returned value carries the ids of the variables; a wrapper that waits for the operation
  and is not settled.
\<close>

definition sameIds :: "exchange_result \<Rightarrow> exchange_vars \<Rightarrow> bool" where
  "sameIds x v \<longleftrightarrow> resultConversationId x = conversationId v \<and> resultMessageId x = messageId v"

definition waiting :: "exchange_result cancelable \<Rightarrow> bool" where
  "waiting w \<longleftrightarrow> settledAs w = None \<and> awaiting w"

section \<open>The retry loop (\<open>ChatGPTAPIBrowser.sendMessage\<close>)\<close>

text \<open>
  What \<open>this._page.evaluate(browserPostEventStream, ...)\<close> does for the caller: it throws,
  it returns what \<open>browserPostEventStream\<close> returned, or it never returns.
\<close>

datatype evaluated = EvaluateThrows jserror | EvaluateReturns exchange_result | EvaluateNever

text \<open>
  The collaborators, scripted: what the \<open>k\<close>-th call of \<open>getIsAuthenticated\<close> answers and what
  the \<open>k\<close>-th call of \<open>page.evaluate\<close> does, counted from 0.
\<close>

record world =
  isAuthenticatedAt :: "nat \<Rightarrow> bool"
  evaluateAt :: "nat \<Rightarrow> evaluated"

text \<open>
  The client: the registry \<open>_messageOnProgressHandlers\<close>, the flag \<open>_markdown\<close>, and how
  often it has called \<open>getIsAuthenticated\<close>, \<open>page.evaluate\<close>, \<open>resetSession\<close> and
  \<open>refreshSession\<close>. Both \<open>resetSession\<close> and \<open>refreshSession\<close> catch what they throw.
\<close>

record 'h browser =
  messageOnProgressHandlers :: "string \<rightharpoonup> 'h"
  markdownFlag :: bool
  authChecks :: nat
  evaluations :: nat
  resetSessions :: nat
  refreshSessions :: nat

record chatgpt_error =
  ceMessage :: string
  ceStatusCode :: "json option"
  ceStatusText :: "json option"

datatype send_outcome =
  Returned exchange_result | ReturnedUndefined | Threw chatgpt_error | StillPending

text \<open>\<open>cleanup()\<close>.\<close>

definition cleanup :: "string \<Rightarrow> 'h browser \<Rightarrow> 'h browser" where
  "cleanup msgId b =
     (if messageOnProgressHandlers b msgId \<noteq> None
      then b\<lparr>messageOnProgressHandlers := (messageOnProgressHandlers b)(msgId := None)\<rparr>
      else b)"

text \<open>\<open>!result\<close> for the variable \<open>result\<close>, which is \<open>undefined\<close>, \<open>null\<close> or an object.\<close>

definition notResult :: "exchange_result option \<Rightarrow> bool" where
  "notResult result \<longleftrightarrow> result = None"

text \<open>
  The \<open>do\<close> ... \<open>while (!result)\<close> loop, one round per call, with the variables \<open>result\<close>,
  \<open>numTries\<close> and \<open>is401\<close>. A \<open>continue\<close> goes to the test \<open>!result\<close>; when the test fails
  the loop is left, \<open>cleanup()\<close> runs and the function returns \<open>undefined\<close>.
\<close>

function sendLoop ::
    "world \<Rightarrow> (json \<Rightarrow> json) \<Rightarrow> string \<Rightarrow> 'h browser \<Rightarrow> exchange_result option \<Rightarrow> nat \<Rightarrow> bool
     \<Rightarrow> 'h browser \<times> send_outcome" where
  "sendLoop w markdownToText msgId b result numTries is401 =
     (let reauth = (is401 \<or> \<not> isAuthenticatedAt w (authChecks b));
          b1 = (if is401 then b else b\<lparr>authChecks := authChecks b + 1\<rparr>);
          b2 = (if reauth
                then b1\<lparr>resetSessions := resetSessions b1 + 1, authChecks := authChecks b1 + 1\<rparr>
                else b1)
      in if reauth \<and> \<not> isAuthenticatedAt w (authChecks b1) then
           (cleanup msgId b2,
            Threw \<lparr>ceMessage = ''Not signed in'', ceStatusCode = Some (JNum 401),
                   ceStatusText = None\<rparr>)
         else
           (let b3 = b2\<lparr>evaluations := evaluations b2 + 1\<rparr>
            in case evaluateAt w (evaluations b2) of
                 EvaluateNever \<Rightarrow> (b3, StillPending)
               | EvaluateThrows err \<Rightarrow>
                   if numTries + 1 \<ge> 2 then
                     (cleanup msgId b3,
                      Threw \<lparr>ceMessage = errToString err,
                             ceStatusCode = errResponseStatusCode err,
                             ceStatusText = errResponseStatusText err\<rparr>)
                   else if notResult result then
                     sendLoop w markdownToText msgId b3 result (numTries + 1) is401
                   else (cleanup msgId b3, ReturnedUndefined)
               | EvaluateReturns (ErrorObject msg statusCode statusText c m) \<Rightarrow>
                   if statusCode = Some (JNum 401) then
                     (if numTries + 1 \<ge> 2 then
                        (cleanup msgId b3,
                         Threw \<lparr>ceMessage = msg, ceStatusCode = statusCode,
                                ceStatusText = statusText\<rparr>)
                      else if notResult (Some (ErrorObject msg statusCode statusText c m)) then
                        sendLoop w markdownToText msgId b3
                          (Some (ErrorObject msg statusCode statusText c m)) (numTries + 1) True
                      else (cleanup msgId b3, ReturnedUndefined))
                   else if statusCode \<noteq> Some (JNum 403) then
                     (b3, Threw \<lparr>ceMessage = msg, ceStatusCode = statusCode,
                                  ceStatusText = statusText\<rparr>)
                   else if numTries + 1 \<ge> 2 then
                     (b3\<lparr>refreshSessions := refreshSessions b3 + 1\<rparr>,
                      Threw \<lparr>ceMessage = msg, ceStatusCode = statusCode,
                             ceStatusText = statusText\<rparr>)
                   else if notResult None then
                     sendLoop w markdownToText msgId
                       (b3\<lparr>refreshSessions := refreshSessions b3 + 1\<rparr>) None (numTries + 1) is401
                   else (cleanup msgId (b3\<lparr>refreshSessions := refreshSessions b3 + 1\<rparr>),
                         ReturnedUndefined)
               | EvaluateReturns (Snapshot r c m) \<Rightarrow>
                   (cleanup msgId b3,
                    Returned (Snapshot (if markdownFlag b3 then r else markdownToText r) c m))))"
  by pat_completeness auto
termination
  by (relation "measure (\<lambda>(w, md, msgId, b, result, numTries, is401). 2 - numTries)") auto

declare sendLoop.simps [simp del]

text \<open>
  \<open>sendMessage(message, opts)\<close> for the message id \<open>msgId\<close> (\<open>messageId\<close> in the source) and the progress function
  \<open>onProgress\<close> of \<open>opts\<close>: the registration, then the loop.
\<close>

definition sendMessage ::
    "world \<Rightarrow> (json \<Rightarrow> json) \<Rightarrow> string \<Rightarrow> 'h option \<Rightarrow> 'h browser \<Rightarrow> 'h browser \<times> send_outcome" where
  "sendMessage w markdownToText msgId onProgress b =
     sendLoop w markdownToText msgId
       (case onProgress of
          Some h \<Rightarrow> b\<lparr>messageOnProgressHandlers := (messageOnProgressHandlers b)(msgId \<mapsto> h)\<rparr>
        | None \<Rightarrow> b)
       None 0 False"

text \<open>
  A world for a scripted transport: the session is authenticated at every check, and the
  calls of \<open>page.evaluate\<close> do what the list says, one entry per call; past the list a call
  never returns.
\<close>

definition scriptedWorld :: "evaluated list \<Rightarrow> world" where
  "scriptedWorld script =
     \<lparr>isAuthenticatedAt = (\<lambda>k. True),
      evaluateAt = (\<lambda>k. if k < length script then script ! k else EvaluateNever)\<rparr>"

text \<open>A client that has made no call yet and holds no progress function.\<close>

definition newBrowser :: "bool \<Rightarrow> 'h browser" where
  "newBrowser markdown =
     \<lparr>messageOnProgressHandlers = Map.empty, markdownFlag = markdown, authChecks = 0,
      evaluations = 0, resetSessions = 0, refreshSessions = 0\<rparr>"

section \<open>The payload handler of \<open>ChatGPTAPI.sendMessage\<close>\<close>

text \<open>
  What one call of the \<open>onMessage\<close> given to \<open>fetchSSE\<close> does besides updating \<open>result\<close>:
  it resolves the promise with \<open>result\<close>, rejects it, or runs to its end, having called
  \<open>onProgress\<close> or not.
\<close>

datatype api_effect =
  ApiResolves exchange_vars | ApiRejects jserror | ApiProcessed "exchange_vars option"

text \<open>
  The handler. \<open>JSON.parse\<close> is the parameter \<open>parse\<close> (\<open>Inl\<close> the error it throws),
  \<open>markdownToText\<close> a parameter too; \<open>onProgress\<close>, when given, returns (\<open>None\<close>) or throws.
  Reading a property of \<open>null\<close> throws a \<open>TypeError\<close>.
\<close>

definition apiOnMessage ::
    "(string \<Rightarrow> jserror + json) \<Rightarrow> bool \<Rightarrow> (json \<Rightarrow> json) \<Rightarrow> (exchange_vars \<Rightarrow> jserror option) option
     \<Rightarrow> exchange_vars \<Rightarrow> string \<Rightarrow> exchange_vars \<times> api_effect" where
  "apiOnMessage parse markdown markdownToText onProgress result d =
     (if d = ''[DONE]'' then (result, ApiResolves result)
      else case parse d of
        Inl err \<Rightarrow> (result, ApiRejects err)
      | Inr JNull \<Rightarrow>
          (result, ApiRejects (plainError ''TypeError'' ''Cannot read properties of null''))
      | Inr convoResponseEvent \<Rightarrow>
          (let r1 = (if truthyO (getProp convoResponseEvent ''conversation_id'')
                     then result\<lparr>conversationId := getProp convoResponseEvent ''conversation_id''\<rparr>
                     else result);
               r2 = (if truthyO (optProp (getProp convoResponseEvent ''message'') ''id'')
                     then r1\<lparr>messageId := optProp (getProp convoResponseEvent ''message'') ''id''\<rparr>
                     else r1);
               message2 = getProp convoResponseEvent ''message''
           in if truthyO message2 then
                (case optElem0 (optProp (optProp message2 ''content'') ''parts'') of
                   None \<Rightarrow> (r2, ApiProcessed None)
                 | Some text \<Rightarrow>
                     if truthy text then
                       (let r3 = r2\<lparr>response := (if markdown then text else markdownToText text)\<rparr>
                        in case onProgress of
                             None \<Rightarrow> (r3, ApiProcessed None)
                           | Some f \<Rightarrow>
                               (case f r3 of
                                  Some err \<Rightarrow> (r3, ApiRejects err)
                                | None \<Rightarrow> (r3, ApiProcessed (Some r3))))
                     else (r2, ApiProcessed None))
              else (r2, ApiProcessed None)))"

section \<open>The credential cache and \<open>ChatGPTAPI.refreshSession\<close>\<close>

text \<open>
  Modelled from the spec: the class \<open>ExpiryMap\<close> of the imported package \<open>expiry-map\<close>, which
  is not among the sources. The specification gives it as a time-bounded cache: \<open>set\<close> stores
  a value with expiry = now + configured time-to-live, overwriting any prior entry; \<open>get\<close>
  returns the value or empty, evaluated against the current time, and returns a value only
  while the current time is before its expiry; \<open>delete\<close> invalidates. Times are in
  milliseconds; \<open>now\<close> is the reading of the clock at the call.
\<close>

record 'v expiry_map =
  timeToLive :: int
  entries :: "string \<rightharpoonup> ('v \<times> int)"

definition newExpiryMap :: "int \<Rightarrow> 'v expiry_map" where
  "newExpiryMap maxAge = \<lparr>timeToLive = maxAge, entries = Map.empty\<rparr>"

definition emGet :: "int \<Rightarrow> 'v expiry_map \<Rightarrow> string \<Rightarrow> 'v option" where
  "emGet now c k =
     (case entries c k of
        None \<Rightarrow> None
      | Some (v, expiry) \<Rightarrow> if now < expiry then Some v else None)"

definition emSet :: "int \<Rightarrow> 'v expiry_map \<Rightarrow> string \<Rightarrow> 'v \<Rightarrow> 'v expiry_map" where
  "emSet now c k v = c\<lparr>entries := (entries c)(k \<mapsto> (v, now + timeToLive c))\<rparr>"

definition emDelete :: "'v expiry_map \<Rightarrow> string \<Rightarrow> 'v expiry_map" where
  "emDelete c k = c\<lparr>entries := (entries c)(k := None)\<rparr>"

definition KEY_ACCESS_TOKEN :: string where
  "KEY_ACCESS_TOKEN = ''accessToken''"

text \<open>The fields of a \<open>ChatGPTAPI\<close> that \<open>refreshSession\<close> reads and writes.\<close>

record chatgpt_api =
  accessTokenCache :: "json expiry_map"
  apiUser :: "json option"

text \<open>
  The constructor, for the options \<open>accessTokenTTL\<close> (one hour when absent), \<open>accessToken\<close>,
  \<open>sessionToken\<close> and \<open>clearanceToken\<close>, at the time \<open>now\<close>.
\<close>

definition newChatGPTAPI ::
    "int \<Rightarrow> int option \<Rightarrow> json option \<Rightarrow> json option \<Rightarrow> json option \<Rightarrow> chatgpt_error + chatgpt_api" where
  "newChatGPTAPI now accessTokenTTL accessToken sessionToken clearanceToken =
     (let cache0 = newExpiryMap (case accessTokenTTL of None \<Rightarrow> 60 * 60000 | Some t \<Rightarrow> t);
          cache1 = (case accessToken of
                      None \<Rightarrow> cache0
                    | Some tok \<Rightarrow> if truthy tok then emSet now cache0 KEY_ACCESS_TOKEN tok else cache0)
      in if \<not> truthyO sessionToken then
           Inl \<lparr>ceMessage = ''ChatGPT invalid session token'', ceStatusCode = Some (JNum 401),
                ceStatusText = None\<rparr>
         else if \<not> truthyO clearanceToken then
           Inl \<lparr>ceMessage = ''ChatGPT invalid clearance token'', ceStatusCode = Some (JNum 401),
                ceStatusText = None\<rparr>
         else Inr \<lparr>accessTokenCache = cache1, apiUser = None\<rparr>)"

text \<open>
  What the request for the session does: \<open>fetch\<close> rejects, or answers with a status, a status
  text and a body that \<open>r.json()\<close> reads (\<open>Inl\<close> when it throws).
\<close>

datatype session_fetched =
  SessionFetchRejects jserror | SessionResponds nat string "jserror + json"

text \<open>
  The error that the \<open>catch\<close> block of \<open>refreshSession\<close> throws for the error \<open>err\<close> caught,
  \<open>resp\<close> (\<open>response\<close> in the source) being the answer of \<open>fetch\<close> when there was one.
\<close>

definition refreshFailed :: "(nat \<times> string) option \<Rightarrow> jserror \<Rightarrow> chatgpt_error" where
  "refreshFailed resp err =
     \<lparr>ceMessage = ''ChatGPT failed to refresh auth token. '' @ errToString err,
      ceStatusCode = map_option (\<lambda>(status, statusText). JNum (of_nat status)) resp,
      ceStatusText = map_option (\<lambda>(status, statusText). JStr statusText) resp\<rparr>"

text \<open>
  The \<open>try\<close> block of \<open>refreshSession\<close>: the request and what is made of its answer; the new
  token is stored at the time \<open>now\<close>. \<open>toStr\<close> is the conversion of a value to a string that
  \<open>new ChatGPTError(appError)\<close> applies.
\<close>

definition renewSession ::
    "(json \<Rightarrow> string) \<Rightarrow> int \<Rightarrow> chatgpt_api \<Rightarrow> session_fetched \<Rightarrow> chatgpt_api \<times> (chatgpt_error + json)" where
  "renewSession toStr now api fetched =
     (case fetched of
        SessionFetchRejects err \<Rightarrow> (api, Inl (refreshFailed None err))
      | SessionResponds status statusText body \<Rightarrow>
          (let resp = Some (status, statusText)
           in if \<not> statusOk status then
                (api, Inl (refreshFailed resp
                             (plainError ''Error'' (showNat status @ '' '' @ statusText))))
              else case body of
                Inl err \<Rightarrow> (api, Inl (refreshFailed resp err))
              | Inr res \<Rightarrow>
                  (case optProp (Some res) ''accessToken'' of
                     None \<Rightarrow> (api, Inl (refreshFailed resp (plainError ''Error'' ''Unauthorized'')))
                   | Some accessToken \<Rightarrow>
                       if \<not> truthy accessToken then
                         (api, Inl (refreshFailed resp (plainError ''Error'' ''Unauthorized'')))
                       else
                         (case optProp (Some res) ''error'' of
                            Some appError \<Rightarrow>
                              if truthy appError then
                                (api, Inl (refreshFailed resp
                                   (plainError ''Error''
                                      (if appError = JStr ''RefreshAccessTokenError''
                                       then ''session token may have expired''
                                       else toStr appError))))
                              else
                                ((if truthyO (getProp res ''user'')
                                  then api\<lparr>apiUser := getProp res ''user''\<rparr> else api)
                                 \<lparr>accessTokenCache :=
                                    emSet now (accessTokenCache api) KEY_ACCESS_TOKEN accessToken\<rparr>,
                                 Inr accessToken)
                          | None \<Rightarrow>
                              ((if truthyO (getProp res ''user'')
                                then api\<lparr>apiUser := getProp res ''user''\<rparr> else api)
                               \<lparr>accessTokenCache :=
                                  emSet now (accessTokenCache api) KEY_ACCESS_TOKEN accessToken\<rparr>,
                               Inr accessToken)))))"

text \<open>
  \<open>refreshSession()\<close>: the cache is read at the time \<open>now\<close>; when it gives no truthy token
  the session is renewed, the new token being stored at the time \<open>later\<close>.
\<close>

definition refreshSession ::
    "(json \<Rightarrow> string) \<Rightarrow> int \<Rightarrow> int \<Rightarrow> chatgpt_api \<Rightarrow> session_fetched
     \<Rightarrow> chatgpt_api \<times> (chatgpt_error + json)" where
  "refreshSession toStr now later api fetched =
     (case emGet now (accessTokenCache api) KEY_ACCESS_TOKEN of
        Some cachedAccessToken \<Rightarrow>
          if truthy cachedAccessToken then (api, Inr cachedAccessToken)
          else renewSession toStr later api fetched
      | None \<Rightarrow> renewSession toStr later api fetched)"


section \<open>Lemmas on strings and on the scanning loop\<close>


lemma scanLine_done: "0 \<le> ll \<Longrightarrow> scanLine buf pos idx fl ll d = (ll, fl, d)"
  by (subst scanLine.simps) simp


lemma firstColon_nonneg: "CHR '':'' \<in> set line \<Longrightarrow> 0 \<le> firstColon line"
  by (simp add: firstColon_def)















section \<open>The decoder variables outside the scan\<close>

lemma frame_frame [simp]: "frame a b c d (frame a' b' c' d' p) = frame a b c d p"
  by (simp add: frame_def)

lemma frame_sel [simp]:
  "isFirstChunk (frame a b c d p) = a" "buffer (frame a b c d p) = b"
  "startingPosition (frame a b c d p) = c" "startingFieldLength (frame a b c d p) = d"
  "eventId (frame a b c d p) = eventId p" "eventName (frame a b c d p) = eventName p"
  "data (frame a b c d p) = data p"
  by (simp_all add: frame_def)













section \<open>The loop of \<open>feed\<close> reads line by line\<close>




lemma feedLoop_exit: "int (length buf) \<le> pos \<Longrightarrow> feedLoop buf p pos d = (p, pos, [])"
  by (subst feedLoop.simps) simp


lemma feedLoop_line:
  "pos < int (length buf) \<Longrightarrow>
   scanLine buf pos (startingPosition p) (startingFieldLength p) (- 1) False = (ll, fl, d1) \<Longrightarrow>
   0 \<le> ll \<Longrightarrow>
   parseEventStreamLine (p\<lparr>startingPosition := 0, startingFieldLength := - 1\<rparr>) buf pos fl ll = (p2, out) \<Longrightarrow>
   feedLoop buf p2 (pos + ll + 1) d1 = (p3, pos3, out3) \<Longrightarrow>
   feedLoop buf p pos False = (p3, pos3, out @ out3)"
  by (subst feedLoop.simps) simp


section \<open>One \<open>feed\<close> reads line by line\<close>

lemma sliceFrom_nat: "sliceFrom s (int k) = drop k s"
  by (simp add: sliceFrom_def slice_def Let_def min_def)

lemma hasBom_iff:
  "hasBom buf \<longleftrightarrow> 3 \<le> length buf \<and> of_char (buf ! 0) = (239::nat) \<and>
                   of_char (buf ! 1) = (187::nat) \<and> of_char (buf ! 2) = (191::nat)"
  by (auto simp: hasBom_def BOM_def charCodeAt_def charAt_def upt_rec[of 0] upt_rec[of 1] upt_rec[of 2]
           split: if_splits)

lemma hasBom_append: "3 \<le> length c \<Longrightarrow> hasBom (c @ x) = hasBom c"
  by (auto simp: hasBom_iff nth_append)




lemma scanned_eq:
  "scanned p chunk =
     (let buffer0 = (if buffer p \<noteq> [] then buffer p @ chunk else chunk)
      in if isFirstChunk p \<and> hasBom buffer0 then sliceFrom buffer0 (int (length BOM)) else buffer0)"
  using sliceFrom_nat[of "buffer p @ chunk" 3] sliceFrom_nat[of chunk 3]
  by (cases "buffer p = []") (simp_all add: scanned_def Let_def BOM_def del: drop_append)

lemma feed_unfold:
  "feedLoop (scanned p chunk) (p\<lparr>buffer := scanned p chunk, isFirstChunk := False\<rparr>) 0 False
     = (p2, position, out) \<Longrightarrow>
   feed p chunk =
     (if position = int (length (scanned p chunk)) then p2\<lparr>buffer := []\<rparr>
      else if position > 0 then p2\<lparr>buffer := sliceFrom (scanned p chunk) position\<rparr>
      else p2, out)"
  by (simp add: feed_def scanned_eq Let_def)


section \<open>A stream of chunks reads as the whole text\<close>






section \<open>The blank line\<close>

lemma slice_butlast: "slice s 0 (- 1) = butlast s"
proof -
  have "nat (int (length s) - 1) = length s - 1" by simp
  then show ?thesis by (simp add: slice_def Let_def butlast_conv_take max_def)
qed

lemma pesl_blank:
  "parseEventStreamLine p lineBuffer index fieldLength 0 =
     (if data p \<noteq> [] then
        (p\<lparr>data := [], eventId := None, eventName := None\<rparr>,
         [Event (eventId p) (if eventName p = Some [] then None else eventName p) (butlast (data p))])
      else (p\<lparr>eventName := None\<rparr>, []))"
  by (simp add: parseEventStreamLine_def slice_butlast)

text \<open>
  A chunk that is a lone line feed, fed to a decoder that keeps no text: the scan finds a line
  of length zero at once, whatever character ended the chunk before.
\<close>

lemma scanLine_lone_LF: "scanLine [LF] 0 0 fl (- 1) False = (0, fl, False)"
proof -
  have "scanLine [LF] 0 0 fl (- 1) False = scanLine [LF] 0 (0 + 1) fl (0 - 0) False"
    by (subst scanLine.simps) (simp add: charAt_def)
  then show ?thesis by (simp add: scanLine_done)
qed

lemma feed_lone_LF:
  assumes "buffer p = []" and "startingPosition p = 0" and "data p \<noteq> []"
  shows "snd (feed p [LF]) =
           [Event (eventId p) (if eventName p = Some [] then None else eventName p)
              (butlast (data p))]"
proof -
  let ?e = "Event (eventId p) (if eventName p = Some [] then None else eventName p)
              (butlast (data p))"
  let ?q = "p\<lparr>buffer := [LF], isFirstChunk := False\<rparr>"
  let ?p2 = "?q\<lparr>startingPosition := 0, startingFieldLength := - 1, data := [], eventId := None,
                eventName := None\<rparr>"
  have sc: "scanned p [LF] = [LF]"
    using assms(1) by (simp add: scanned_def hasBom_iff)
  have s: "scanLine [LF] 0 (startingPosition ?q) (startingFieldLength ?q) (- 1) False
             = (0, startingFieldLength p, False)"
    using assms(2) by (simp add: scanLine_lone_LF)
  have pe: "parseEventStreamLine (?q\<lparr>startingPosition := 0, startingFieldLength := - 1\<rparr>) [LF] 0
              (startingFieldLength p) 0 = (?p2, [?e])"
    using assms(3) by (simp add: pesl_blank)
  have ex: "feedLoop [LF] ?p2 (0 + 0 + 1) False = (?p2, 0 + 0 + 1, [])"
    by (rule feedLoop_exit) simp
  have "feedLoop [LF] ?q 0 False = (?p2, 0 + 0 + 1, [?e] @ [])"
    by (rule feedLoop_line[OF _ s _ pe ex]) simp_all
  then have "feedLoop (scanned p [LF]) (p\<lparr>buffer := scanned p [LF], isFirstChunk := False\<rparr>) 0 False
               = (?p2, 1, [?e])"
    by (simp add: sc)
  from feed_unfold[OF this] show ?thesis by simp
qed

section \<open>The claims on the decoder\<close>



text \<open>
  C6 fails on the code. The flag \<open>discardTrailingNewline\<close>, by which the line feed after a
  carriage return is skipped, is a local variable of \<open>feed\<close> and is lost between two chunks.
  So a decoder that keeps no text and has data pending dispatches on a chunk that is a lone line
  feed, also when the chunk before ended with the carriage return of the same line end: the
  chunk \<open>data: x\<close>, carriage return leaves the decoder exactly as the chunk \<open>data: x\<close>,
  line feed does. The text \<open>data: x\<close>, carriage return, line feed has one line and no blank
  line, and fed in one chunk it emits nothing; cut between the carriage return and the line
  feed it emits the event \<open>x\<close>, for a block that no blank line has closed.
\<close>

theorem C6_event_without_blank_line:
  "(buffer p = [] \<and> startingPosition p = 0 \<and> data p \<noteq> [] \<longrightarrow>
      snd (feed p [LF]) =
        [Event (eventId p) (if eventName p = Some [] then None else eventName p)
           (butlast (data p))]) \<and>
   fst (feed createParser2 (''data: x'' @ [CR])) = fst (feed createParser2 (''data: x'' @ [LF])) \<and>
   completeLines [] (concat [''data: x'' @ [CR], [LF]]) = [''data: x''] \<and>
   \<not> hasBlankLine (concat [''data: x'' @ [CR], [LF]]) \<and>
   snd (feedAll createParser2 [''data: x'' @ [CR], [LF]]) = [Event None None ''x''] \<and>
   snd (feed createParser2 (concat [''data: x'' @ [CR], [LF]])) = []"
proof (intro conjI impI)
  assume "buffer p = [] \<and> startingPosition p = 0 \<and> data p \<noteq> []"
  then show "snd (feed p [LF]) =
        [Event (eventId p) (if eventName p = Some [] then None else eventName p)
           (butlast (data p))]"
    by (simp add: feed_lone_LF)
next
  show "fst (feed createParser2 (''data: x'' @ [CR])) = fst (feed createParser2 (''data: x'' @ [LF]))"
    by code_simp
  show "completeLines [] (concat [''data: x'' @ [CR], [LF]]) = [''data: x'']"
    by code_simp
  show "\<not> hasBlankLine (concat [''data: x'' @ [CR], [LF]])"
    by code_simp
  show "snd (feedAll createParser2 [''data: x'' @ [CR], [LF]]) = [Event None None ''x'']"
    by code_simp
  show "snd (feed createParser2 (concat [''data: x'' @ [CR], [LF]])) = []"
    by code_simp
qed

text \<open>
  Witness of C6: the decoder after the chunk \<open>data: x\<close>, carriage return keeps no text and
  has the data \<open>x\<close> pending; the chunk that is the line feed of that line end emits it.
\<close>

theorem C6_event_without_blank_line_witness:
  "buffer (fst (feed createParser2 (''data: x'' @ [CR]))) = [] \<and>
   startingPosition (fst (feed createParser2 (''data: x'' @ [CR]))) = 0 \<and>
   data (fst (feed createParser2 (''data: x'' @ [CR]))) = ''x'' @ [LF] \<and>
   snd (feed (fst (feed createParser2 (''data: x'' @ [CR]))) [LF]) = [Event None None ''x'']"
proof -
  let ?p = "fst (feed createParser2 (''data: x'' @ [CR]))"
  have h: "buffer ?p = [] \<and> startingPosition ?p = 0 \<and> data ?p = ''x'' @ [LF]"
    by code_simp
  have n: "eventId ?p = None \<and> eventName ?p = None"
    by code_simp
  from h have "buffer ?p = [] \<and> startingPosition ?p = 0 \<and> data ?p \<noteq> []" by simp
  with C6_event_without_blank_line[of ?p]
  have "snd (feed ?p [LF]) =
          [Event (eventId ?p) (if eventName ?p = Some [] then None else eventName ?p)
             (butlast (data ?p))]"
    by blast
  with h n show ?thesis by simp
qed

text \<open>
  C8. On a blank line the decoder dispatches only when data has been accumulated: it then emits
  the pending id, the pending name and the data less its last character (the line feed), and
  clears data, id and name; with no data it clears the name alone and leaves the id. For the
  chunks \<open>id: 1\<close>, line feed, \<open>data: {"a":1}\<close>, line feed and then line feed,
  \<open>data: done\<close>, line feed, line feed, it emits an event with id 1 and data \<open>{"a":1}\<close>
  and an event with no id and data \<open>done\<close>.
\<close>

theorem C8_blank_line_dispatch:
  "parseEventStreamLine p lineBuffer index fieldLength 0 =
     (if data p \<noteq> [] then
        (p\<lparr>data := [], eventId := None, eventName := None\<rparr>,
         [Event (eventId p) (if eventName p = Some [] then None else eventName p) (butlast (data p))])
      else (p\<lparr>eventName := None\<rparr>, [])) \<and>
   snd (feedAll createParser2
          [''id: 1'' @ [LF] @ ''data: {'' @ [CHR 0x22] @ ''a'' @ [CHR 0x22] @ '':1}'' @ [LF],
           [LF] @ ''data: done'' @ [LF, LF]])
     = [Event (Some ''1'') None (''{'' @ [CHR 0x22] @ ''a'' @ [CHR 0x22] @ '':1}''),
        Event None None ''done'']"
proof
  show "parseEventStreamLine p lineBuffer index fieldLength 0 =
     (if data p \<noteq> [] then
        (p\<lparr>data := [], eventId := None, eventName := None\<rparr>,
         [Event (eventId p) (if eventName p = Some [] then None else eventName p) (butlast (data p))])
      else (p\<lparr>eventName := None\<rparr>, []))"
    by (rule pesl_blank)
  show "snd (feedAll createParser2
          [''id: 1'' @ [LF] @ ''data: {'' @ [CHR 0x22] @ ''a'' @ [CHR 0x22] @ '':1}'' @ [LF],
           [LF] @ ''data: done'' @ [LF, LF]])
     = [Event (Some ''1'') None (''{'' @ [CHR 0x22] @ ''a'' @ [CHR 0x22] @ '':1}''),
        Event None None ''done'']"
    by code_simp
qed

section \<open>The deadline wrapper\<close>

lemma happen_settled_stays:
  "settledAs c = Some x \<Longrightarrow> settledAs (happen hasCancel options c h) = Some x"
  by (cases h) (auto simp: happen.simps settle_def clearTimeout_def timerCallback_def Let_def split: option.splits)

lemma happen_unarmed:
  "timerState c \<noteq> Armed \<Longrightarrow>
   timerState (happen hasCancel options c h) = timerState c \<and>
   cancelCalls (happen hasCancel options c h) = cancelCalls c \<and>
   (\<not> awaiting c \<longrightarrow> \<not> awaiting (happen hasCancel options c h))"
  by (cases h) (auto simp: happen.simps settle_def clearTimeout_def)

lemma happenAll_settled_stays:
  "settledAs c = Some x \<Longrightarrow> settledAs (happenAll hasCancel options c hs) = Some x"
  unfolding happenAll_def
  by (induction hs arbitrary: c) (simp_all add: happen_settled_stays)

lemma happenAll_unarmed:
  "timerState c \<noteq> Armed \<Longrightarrow>
   timerState (happenAll hasCancel options c hs) = timerState c \<and>
   cancelCalls (happenAll hasCancel options c hs) = cancelCalls c \<and>
   (\<not> awaiting c \<longrightarrow> \<not> awaiting (happenAll hasCancel options c hs))"
  unfolding happenAll_def
proof (induction hs arbitrary: c)
  case Nil
  then show ?case by simp
next
  case (Cons h hs)
  from happen_unarmed[OF Cons.prems, of hasCancel options h]
  have a: "timerState (happen hasCancel options c h) = timerState c"
    and b: "cancelCalls (happen hasCancel options c h) = cancelCalls c"
    and d: "\<not> awaiting c \<longrightarrow> \<not> awaiting (happen hasCancel options c h)" by simp_all
  have "timerState (happen hasCancel options c h) \<noteq> Armed" using a Cons.prems by simp
  from Cons.IH[OF this] show ?case using a b d by simp
qed

lemma pTimeout2_positive:
  "milliseconds options = Some (Fin n) \<Longrightarrow> 0 < n \<Longrightarrow> signal options = None \<Longrightarrow>
   pTimeout2 options = \<lparr>settledAs = None, timerState = Armed, cancelCalls = 0, awaiting = True,
                         listening = False\<rparr>"
  by (simp add: pTimeout2_def)

lemma pTimeout2_nonpositive:
  "milliseconds options = Some (Fin n) \<Longrightarrow> n \<le> 0 \<Longrightarrow>
   pTimeout2 options = \<lparr>settledAs = Some (Rejected (invalidMilliseconds (Some (Fin n)))),
                         timerState = NoTimer, cancelCalls = 0, awaiting = False, listening = False\<rparr>"
  by (simp add: pTimeout2_def sgn_if)

lemma pTimeout2_infinite:
  "milliseconds options = Some PosInf \<Longrightarrow>
   pTimeout2 options = \<lparr>settledAs = None, timerState = NoTimer, cancelCalls = 0, awaiting = True,
                         listening = False\<rparr>"
  by (simp add: pTimeout2_def)

lemma timeoutError_name:
  "\<forall>e. message options \<noteq> MessageError e \<Longrightarrow> errName (timeoutError options) = ''TimeoutError''"
  by (cases "message options") (simp_all add: timeoutError_def plainError_def)

text \<open>
  C5. For a positive finite duration, with no signal: when the operation settles first the
  wrapper settles as the operation did, the timer is cleared and \<open>promise.cancel\<close> is never
  called, whatever happens later; when the timer fires first (and no fallback is given) the
  wrapper is rejected with the timeout error, a \<open>TimeoutError\<close> unless \<open>message\<close> is itself
  an error object, and \<open>promise.cancel\<close> is called once if it is a function and never
  again, whatever happens later. For a duration that is zero or negative the wrapper is
  rejected at once with a \<open>TypeError\<close>, arms no timer and never waits for the operation. For
  an infinite duration no timer is armed and the wrapper settles as the operation does.
\<close>

theorem C5_deadline_wrapper:
  "(milliseconds options = Some (Fin n) \<and> 0 < n \<and> signal options = None \<longrightarrow>
      settledAs (happenAll hasCancel options (pTimeout2 options) (OperationSettles r # hs)) = Some r \<and>
      cancelCalls (happenAll hasCancel options (pTimeout2 options) (OperationSettles r # hs)) = 0 \<and>
      timerState (happenAll hasCancel options (pTimeout2 options) (OperationSettles r # hs)) = Cleared) \<and>
   (milliseconds options = Some (Fin n) \<and> 0 < n \<and> signal options = None \<and>
    fallback options = None \<longrightarrow>
      settledAs (happenAll hasCancel options (pTimeout2 options) (TimerFires # hs))
        = Some (Rejected (timeoutError options)) \<and>
      cancelCalls (happenAll hasCancel options (pTimeout2 options) (TimerFires # hs))
        = (if hasCancel then 1 else 0) \<and>
      ((\<forall>e. message options \<noteq> MessageError e) \<longrightarrow> errName (timeoutError options) = ''TimeoutError'')) \<and>
   (milliseconds options = Some (Fin n) \<and> n \<le> 0 \<longrightarrow>
      settledAs (happenAll hasCancel options (pTimeout2 options) hs)
        = Some (Rejected (invalidMilliseconds (Some (Fin n)))) \<and>
      errName (invalidMilliseconds (Some (Fin n))) = ''TypeError'' \<and>
      \<not> awaiting (happenAll hasCancel options (pTimeout2 options) hs) \<and>
      timerState (happenAll hasCancel options (pTimeout2 options) hs) = NoTimer \<and>
      cancelCalls (happenAll hasCancel options (pTimeout2 options) hs) = 0) \<and>
   (milliseconds options = Some PosInf \<longrightarrow>
      timerState (happenAll hasCancel options (pTimeout2 options) hs) = NoTimer \<and>
      cancelCalls (happenAll hasCancel options (pTimeout2 options) hs) = 0 \<and>
      settledAs (happenAll hasCancel options (pTimeout2 options) (OperationSettles r # hs)) = Some r)"
proof (intro conjI impI)
  assume a: "milliseconds options = Some (Fin n) \<and> 0 < n \<and> signal options = None"
  let ?c = "happen hasCancel options (pTimeout2 options) (OperationSettles r)"
  have c: "?c = \<lparr>settledAs = Some r, timerState = Cleared, cancelCalls = 0, awaiting = False,
                  listening = False\<rparr>"
    using a by (simp add: happen.simps pTimeout2_positive settle_def clearTimeout_def)
  have e: "happenAll hasCancel options (pTimeout2 options) (OperationSettles r # hs)
           = happenAll hasCancel options ?c hs" by (simp add: happenAll_def)
  show "settledAs (happenAll hasCancel options (pTimeout2 options) (OperationSettles r # hs)) = Some r"
    unfolding e by (rule happenAll_settled_stays) (simp only: c cancelable.select_convs)
  have u: "timerState ?c \<noteq> Armed" unfolding c by simp
  show "cancelCalls (happenAll hasCancel options (pTimeout2 options) (OperationSettles r # hs)) = 0"
    unfolding e using happenAll_unarmed[OF u, of hasCancel options hs] unfolding c by simp
  show "timerState (happenAll hasCancel options (pTimeout2 options) (OperationSettles r # hs)) = Cleared"
    unfolding e using happenAll_unarmed[OF u, of hasCancel options hs] unfolding c by simp
next
  assume a: "milliseconds options = Some (Fin n) \<and> 0 < n \<and> signal options = None \<and>
             fallback options = None"
  let ?c = "happen hasCancel options (pTimeout2 options) TimerFires"
  have c: "?c = \<lparr>settledAs = Some (Rejected (timeoutError options)), timerState = Fired,
                  cancelCalls = (if hasCancel then 1 else 0), awaiting = True, listening = False\<rparr>"
    using a by (simp add: happen.simps pTimeout2_positive settle_def timerCallback_def)
  have e: "happenAll hasCancel options (pTimeout2 options) (TimerFires # hs)
           = happenAll hasCancel options ?c hs" by (simp add: happenAll_def)
  show "settledAs (happenAll hasCancel options (pTimeout2 options) (TimerFires # hs))
        = Some (Rejected (timeoutError options))"
    unfolding e by (rule happenAll_settled_stays) (simp only: c cancelable.select_convs)
  have u: "timerState ?c \<noteq> Armed" unfolding c by simp
  show "cancelCalls (happenAll hasCancel options (pTimeout2 options) (TimerFires # hs))
        = (if hasCancel then 1 else 0)"
    unfolding e using happenAll_unarmed[OF u, of hasCancel options hs] unfolding c by simp
  show "errName (timeoutError options) = ''TimeoutError''" if "\<forall>e. message options \<noteq> MessageError e"
    using that by (rule timeoutError_name)
next
  assume a: "milliseconds options = Some (Fin n) \<and> n \<le> 0"
  then have p: "pTimeout2 options = \<lparr>settledAs = Some (Rejected (invalidMilliseconds (Some (Fin n)))),
                         timerState = NoTimer, cancelCalls = 0, awaiting = False, listening = False\<rparr>"
    by (simp add: pTimeout2_nonpositive)
  have u: "timerState (pTimeout2 options) \<noteq> Armed" by (simp add: p)
  show "settledAs (happenAll hasCancel options (pTimeout2 options) hs)
        = Some (Rejected (invalidMilliseconds (Some (Fin n))))"
    by (rule happenAll_settled_stays) (simp add: p)
  show "errName (invalidMilliseconds (Some (Fin n))) = ''TypeError''"
    by (simp add: invalidMilliseconds_def plainError_def)
  show "\<not> awaiting (happenAll hasCancel options (pTimeout2 options) hs)"
    using happenAll_unarmed[OF u, of hasCancel options hs] by (simp add: p)
  show "timerState (happenAll hasCancel options (pTimeout2 options) hs) = NoTimer"
    using happenAll_unarmed[OF u, of hasCancel options hs] by (simp add: p)
  show "cancelCalls (happenAll hasCancel options (pTimeout2 options) hs) = 0"
    using happenAll_unarmed[OF u, of hasCancel options hs] by (simp add: p)
next
  assume a: "milliseconds options = Some PosInf"
  then have p: "pTimeout2 options = \<lparr>settledAs = None, timerState = NoTimer, cancelCalls = 0,
                                      awaiting = True, listening = False\<rparr>"
    by (rule pTimeout2_infinite)
  have u: "timerState (pTimeout2 options) \<noteq> Armed" by (simp add: p)
  show "timerState (happenAll hasCancel options (pTimeout2 options) hs) = NoTimer"
    using happenAll_unarmed[OF u, of hasCancel options hs] by (simp add: p)
  show "cancelCalls (happenAll hasCancel options (pTimeout2 options) hs) = 0"
    using happenAll_unarmed[OF u, of hasCancel options hs] by (simp add: p)
  let ?c = "happen hasCancel options (pTimeout2 options) (OperationSettles r)"
  have e: "happenAll hasCancel options (pTimeout2 options) (OperationSettles r # hs)
           = happenAll hasCancel options ?c hs" by (simp add: happenAll_def)
  show "settledAs (happenAll hasCancel options (pTimeout2 options) (OperationSettles r # hs)) = Some r"
    unfolding e by (rule happenAll_settled_stays) (simp add: happen.simps p settle_def clearTimeout_def)
qed

section \<open>The retry loop\<close>

lemma sendLoop_401_first:
  assumes auth: "isAuthenticatedAt w (authChecks b)"
    and ev: "evaluateAt w (evaluations b) = EvaluateReturns (ErrorObject msg (Some (JNum 401)) st c m)"
  shows "sendLoop w md msgId b None 0 False
         = (cleanup msgId (b\<lparr>authChecks := authChecks b + 1, evaluations := evaluations b + 1\<rparr>),
            ReturnedUndefined)"
  using auth ev by (subst sendLoop.simps) (simp add: Let_def notResult_def)

lemma sendLoop_other_status:
  assumes auth: "isAuthenticatedAt w (authChecks b)"
    and ev: "evaluateAt w (evaluations b) = EvaluateReturns (ErrorObject msg sc st c m)"
    and sc: "sc \<noteq> Some (JNum 401)" "sc \<noteq> Some (JNum 403)"
  shows "sendLoop w md msgId b None 0 False
         = (b\<lparr>authChecks := authChecks b + 1, evaluations := evaluations b + 1\<rparr>,
            Threw \<lparr>ceMessage = msg, ceStatusCode = sc, ceStatusText = st\<rparr>)"
  using auth ev sc by (subst sendLoop.simps) (simp add: Let_def)

lemma sendLoop_success:
  assumes auth: "isAuthenticatedAt w (authChecks b)"
    and ev: "evaluateAt w (evaluations b) = EvaluateReturns (Snapshot r c m)"
  shows "sendLoop w md msgId b result numTries False
         = (cleanup msgId (b\<lparr>authChecks := authChecks b + 1, evaluations := evaluations b + 1\<rparr>),
            Returned (Snapshot (if markdownFlag b then r else md r) c m))"
  using auth ev by (subst sendLoop.simps) (simp add: Let_def)

text \<open>
  C2 fails on the code. When the session is authenticated and the first \<open>page.evaluate\<close>
  returns an error object with status code 401, \<open>sendMessage\<close> returns \<open>undefined\<close> after
  that one attempt, with no \<open>resetSession\<close>: \<open>continue\<close> goes to the test \<open>!result\<close>, and
  \<open>result\<close> still holds the error object.
\<close>

theorem C2_first_401_returns_undefined:
  assumes "isAuthenticatedAt w 0"
    and "evaluateAt w 0 = EvaluateReturns (ErrorObject msg (Some (JNum 401)) st c m)"
  shows "snd (sendMessage w md msgId onProgress (newBrowser markdown)) = ReturnedUndefined \<and>
         evaluations (fst (sendMessage w md msgId onProgress (newBrowser markdown))) = 1 \<and>
         resetSessions (fst (sendMessage w md msgId onProgress (newBrowser markdown))) = 0"
proof -
  let ?b = "case onProgress of
              Some h \<Rightarrow> (newBrowser markdown)\<lparr>messageOnProgressHandlers :=
                           (messageOnProgressHandlers (newBrowser markdown))(msgId \<mapsto> h)\<rparr>
            | None \<Rightarrow> newBrowser markdown"
  have a: "authChecks ?b = 0" "evaluations ?b = 0" "resetSessions ?b = 0"
    by (simp_all add: newBrowser_def split: option.splits)
  have "sendMessage w md msgId onProgress (newBrowser markdown)
        = (cleanup msgId (?b\<lparr>authChecks := authChecks ?b + 1, evaluations := evaluations ?b + 1\<rparr>),
           ReturnedUndefined)"
    unfolding sendMessage_def by (rule sendLoop_401_first) (simp_all add: a assms)
  then show ?thesis using a by (simp add: cleanup_def)
qed

text \<open>
  C4 fails on the code. When the session is authenticated and the first \<open>page.evaluate\<close>
  returns an error object whose status code is neither 401 nor 403, \<open>sendMessage\<close> throws
  and the progress function registered for the message id stays in the registry.
\<close>

theorem C4_handler_left_on_other_status:
  assumes "isAuthenticatedAt w 0"
    and "evaluateAt w 0 = EvaluateReturns (ErrorObject msg sc st c m)"
    and "sc \<noteq> Some (JNum 401)" "sc \<noteq> Some (JNum 403)"
  shows "snd (sendMessage w md msgId (Some h) (newBrowser markdown))
           = Threw \<lparr>ceMessage = msg, ceStatusCode = sc, ceStatusText = st\<rparr> \<and>
         messageOnProgressHandlers (fst (sendMessage w md msgId (Some h) (newBrowser markdown))) msgId
           = Some h"
proof -
  let ?b = "(newBrowser markdown)\<lparr>messageOnProgressHandlers :=
              (messageOnProgressHandlers (newBrowser markdown))(msgId \<mapsto> h)\<rparr>"
  have a: "authChecks ?b = 0" "evaluations ?b = 0"
    by (simp_all add: newBrowser_def)
  have "sendMessage w md msgId (Some h) (newBrowser markdown)
        = (?b\<lparr>authChecks := authChecks ?b + 1, evaluations := evaluations ?b + 1\<rparr>,
           Threw \<lparr>ceMessage = msg, ceStatusCode = sc, ceStatusText = st\<rparr>)"
    unfolding sendMessage_def option.case by (rule sendLoop_other_status) (simp_all add: a assms)
  then show ?thesis by simp
qed

section \<open>One exchange inside the page\<close>

lemma caught_error_ids: "\<exists>x. caught v (Some err) = Returns x \<and> sameIds x v"
  by (simp add: caught_def sameIds_def Let_def)

lemma finish_rejected: "\<exists>x. finish v (Rejected err) = Returns x \<and> sameIds x v"
  by (simp add: finish_def caught_error_ids)

lemma finish_nullish: "finish v RejectedNullish = ThrowsTypeError"
  by (simp add: finish_def caught_def)

lemma finish_not_never: "finish v r \<noteq> NeverReturns"
  by (cases r) (simp_all add: finish_def caught_def Let_def)

lemma onMessage_Resolves:
  "onMessage parse hasSink orig v d = (v1, Resolves snap) \<Longrightarrow>
   v1 = v \<and> snap = Snapshot (response v) (conversationId v) (messageId v)"
  by (auto simp: onMessage_def Let_def split: if_splits option.splits)

lemma onParseAll_resolved:
  "onParseAll parse hasSink orig v es = (v2, Some (snap, v0), calls) \<Longrightarrow>
   snap = Snapshot (response v0) (conversationId v0) (messageId v0)"
proof (induction es arbitrary: v v2 calls)
  case Nil
  then show ?case by simp
next
  case (Cons e es)
  show ?case
  proof (cases e)
    case (ReconnectInterval r)
    with Cons show ?thesis by simp
  next
    case (Event i n d)
    obtain v1 eff where om: "onMessage parse hasSink orig v d = (v1, eff)"
      by (cases "onMessage parse hasSink orig v d")
    obtain v3 res3 calls3 where op: "onParseAll parse hasSink orig v1 es = (v3, res3, calls3)"
      by (cases "onParseAll parse hasSink orig v1 es")
    show ?thesis
    proof (cases eff)
      case (Resolves s)
      with Cons.prems Event om op have "snap = s" "v0 = v1" by simp_all
      with onMessage_Resolves[OF om[unfolded Resolves]] show ?thesis by simp
    next
      case ParseWarning
      with Cons.prems Event om op have "res3 = Some (snap, v0)" by simp
      with Cons.IH[of v1 v3 calls3] op show ?thesis by simp
    next
      case NoPayload
      with Cons.prems Event om op have "res3 = Some (snap, v0)" by simp
      with Cons.IH[of v1 v3 calls3] op show ?thesis by simp
    next
      case (Processed x)
      with Cons.prems Event om op have "res3 = Some (snap, v0)" by simp
      with Cons.IH[of v1 v3 calls3] op show ?thesis by simp
    qed
  qed
qed

lemma waiting_settles:
  "waiting w \<Longrightarrow> settledAs (happen True (timeoutOptions ms) w (OperationSettles r)) = Some r"
  by (simp add: happen.simps waiting_def settle_def clearTimeout_def)

lemma waiting_timer:
  "waiting w \<Longrightarrow> timerState w = Armed \<Longrightarrow>
   settledAs (happen True (timeoutOptions ms) w TimerFires)
     = Some (Rejected (timeoutError (timeoutOptions ms)))"
  by (simp add: happen.simps waiting_def settle_def timerCallback_def timeoutOptions_def)

lemma deliver_waiting:
  "wrapper = None \<or> (\<exists>w. wrapper = Some w \<and> waiting w) \<Longrightarrow>
   deliver v timeoutMs wrapper r = finish v r"
  by (auto simp: deliver_def waiting_settles split: option.splits)

text \<open>
  What reading the body can come to: a returned value carries the ids of the variables, and a
  \<open>TypeError\<close> is thrown only after a progress call that rejected with \<open>null\<close> or
  \<open>undefined\<close>.
\<close>

lemma readBody_outcome:
  "wrapper = None \<or> (\<exists>w. wrapper = Some w \<and> waiting w) \<Longrightarrow>
   readBody parse hasSink orig timeoutMs wrapper ending p v calls hs = (out, v', calls') \<Longrightarrow>
   (\<forall>x. out = Returns x \<longrightarrow> sameIds x v') \<and>
   (out = ThrowsTypeError \<longrightarrow> calls' \<noteq> [] \<and> ProgressRejects None \<in> set hs)"
proof (induction hs arbitrary: p v calls)
  case Nil
  note wr = Nil.prems(1)
  show ?case
  proof (cases "\<exists>ms w. timeoutMs = Some ms \<and> wrapper = Some w \<and> timerState w = Armed")
    case True
    then obtain ms w where t: "timeoutMs = Some ms" "wrapper = Some w" "timerState w = Armed" by blast
    with wr have wt: "waiting w" by simp
    from Nil.prems(2) t waiting_timer[OF wt t(3), of ms]
    have o: "out = finish v (Rejected (timeoutError (timeoutOptions ms)))" and "v' = v"
      by (auto simp: bodyOver_def split: body_end.splits)
    with finish_rejected[of v "timeoutError (timeoutOptions ms)"] show ?thesis by auto
  next
    case False
    with Nil.prems(2) have "out = NeverReturns"
      by (auto simp: bodyOver_def split: option.splits if_splits body_end.splits)
    then show ?thesis by simp
  qed
next
  case (Cons h hs)
  note wr = Cons.prems(1)
  show ?case
  proof (cases h)
    case (Chunk str)
    obtain p1 res1 where fd: "feed p str = (p1, res1)" by (cases "feed p str")
    obtain v1 resolved made where op: "onParseAll parse hasSink orig v res1 = (v1, resolved, made)"
      by (cases "onParseAll parse hasSink orig v res1")
    show ?thesis
    proof (cases resolved)
      case None
      with Cons.prems(2) Chunk fd op
      have "readBody parse hasSink orig timeoutMs wrapper ending p1 v1 (calls @ made) hs = (out, v', calls')"
        by simp
      from Cons.IH[OF wr this] show ?thesis by simp
    next
      case (Some sv)
      obtain snap v0 where sv: "sv = (snap, v0)" by (cases sv)
      from onParseAll_resolved[OF op[unfolded Some sv]]
      have s: "sameIds snap v0" by (simp add: sameIds_def)
      from Cons.prems(2) Chunk fd op Some sv
      have "out = finish v0 (Fulfilled snap)" "v' = v0"
        by (auto simp: deliver_waiting[OF wr])
      then show ?thesis using s by (simp add: finish_def)
    qed
  next
    case Deadline
    show ?thesis
    proof (cases "\<exists>ms w. timeoutMs = Some ms \<and> wrapper = Some w \<and> timerState w = Armed")
      case True
      then obtain ms w where t: "timeoutMs = Some ms" "wrapper = Some w" "timerState w = Armed" by blast
      with wr have wt: "waiting w" by simp
      from Cons.prems(2) Deadline t waiting_timer[OF wt t(3), of ms]
      have "out = finish v (Rejected (timeoutError (timeoutOptions ms)))" "v' = v" by auto
      with finish_rejected[of v "timeoutError (timeoutOptions ms)"] show ?thesis by auto
    next
      case False
      with Cons.prems(2) Deadline
      have "readBody parse hasSink orig timeoutMs wrapper ending p v calls hs = (out, v', calls')"
        by (auto split: option.splits if_splits)
      from Cons.IH[OF wr this] show ?thesis by simp
    qed
  next
    case (ProgressRejects thrown)
    show ?thesis
    proof (cases "calls = []")
      case True
      with Cons.prems(2) ProgressRejects
      have "readBody parse hasSink orig timeoutMs wrapper ending p v calls hs = (out, v', calls')"
        by simp
      from Cons.IH[OF wr this] show ?thesis by simp
    next
      case ne: False
      with Cons.prems(2) ProgressRejects
      have o: "out = finish v (rejectWith thrown)" "v' = v" "calls' = calls"
        by (auto simp: deliver_waiting[OF wr])
      show ?thesis
      proof (cases thrown)
        case None
        then have "out = ThrowsTypeError" using o by (simp add: rejectWith_def finish_nullish)
        then show ?thesis using o ne ProgressRejects None by simp
      next
        case (Some err)
        then have "out = finish v (Rejected err)" using o by (simp add: rejectWith_def)
        with finish_rejected[of v err] o show ?thesis by auto
      qed
    qed
  qed
qed

lemma readBody_nullish:
  "calls \<noteq> [] \<Longrightarrow> wrapper = None \<or> (\<exists>w. wrapper = Some w \<and> waiting w) \<Longrightarrow>
   readBody parse hasSink orig timeoutMs wrapper ending p v calls (ProgressRejects None # rest)
     = (ThrowsTypeError, v, calls)"
  by (simp add: deliver_waiting rejectWith_def finish_nullish)

lemma readBody_deadline_returns:
  "waiting w \<Longrightarrow> timerState w = Armed \<Longrightarrow>
   fst (readBody parse hasSink orig (Some ms) (Some w) ending p v calls hs) \<noteq> NeverReturns"
proof (induction hs arbitrary: p v calls)
  case Nil
  then show ?case
    by (simp add: bodyOver_def waiting_timer finish_not_never split: body_end.splits)
next
  case (Cons h hs)
  have wr: "Some w = None \<or> (\<exists>w'. Some w = Some w' \<and> waiting w')" using Cons.prems(1) by simp
  show ?case
  proof (cases h)
    case (Chunk str)
    then show ?thesis
      using Cons.IH[OF Cons.prems]
      by (auto simp: deliver_waiting[OF wr] finish_not_never split: prod.splits option.splits)
  next
    case Deadline
    then show ?thesis using Cons.prems by (simp add: waiting_timer finish_not_never)
  next
    case (ProgressRejects thrown)
    then show ?thesis
      using Cons.IH[OF Cons.prems] by (simp add: deliver_waiting[OF wr] finish_not_never)
  qed
qed

lemma pTimeout2_pending:
  "settledAs (pTimeout2 (timeoutOptions ms)) = None \<Longrightarrow>
   waiting (pTimeout2 (timeoutOptions ms)) \<and>
   (\<forall>n. ms = Fin n \<longrightarrow> timerState (pTimeout2 (timeoutOptions ms)) = Armed)"
  by (cases ms) (auto simp: pTimeout2_def timeoutOptions_def waiting_def split: if_splits)

lemma pTimeout2_settled_rejected:
  "settledAs (pTimeout2 (timeoutOptions ms)) = Some r \<Longrightarrow> \<exists>e. r = Rejected e"
  by (cases ms) (auto simp: pTimeout2_def timeoutOptions_def split: if_splits)

lemma pTimeout2_finite_pending_or_rejected:
  "n \<noteq> 0 \<Longrightarrow> settledAs (pTimeout2 (timeoutOptions (Fin n))) = None \<Longrightarrow>
   timerState (pTimeout2 (timeoutOptions (Fin n))) = Armed"
  by (auto simp: pTimeout2_def timeoutOptions_def split: if_splits)

text \<open>
  What a call of \<open>browserPostEventStream\<close> can come to, whatever \<open>fetch\<close> does and
  whatever happens afterwards.
\<close>

lemma browserPostEventStream_outcome:
  assumes run: "browserPostEventStream parse hasSink cid mid timeoutMs res happens ending
                  = (out, v, calls)"
  shows "(\<forall>x. out = Returns x \<longrightarrow> sameIds x v) \<and>
         (out = ThrowsTypeError \<longrightarrow> calls \<noteq> [] \<and> ProgressRejects None \<in> set happens) \<and>
         (out = NeverReturns \<longrightarrow>
            (\<exists>status statusText. res = Responds status statusText \<and> statusOk status) \<and>
            (\<forall>n. timeoutMs = Some (Fin n) \<longrightarrow> n = 0))"
proof -
  let ?v = "\<lparr>response = JStr [], conversationId = cid, messageId = mid\<rparr>"
  let ?plain = "readBody parse hasSink mid None None ending createParser2 ?v [] happens"
  have plain: "?plain = (out, v, calls) \<Longrightarrow>
      (\<forall>x. out = Returns x \<longrightarrow> sameIds x v) \<and>
      (out = ThrowsTypeError \<longrightarrow> calls \<noteq> [] \<and> ProgressRejects None \<in> set happens)"
    by (rule readBody_outcome[where wrapper = None]) simp_all
  show ?thesis
  proof (cases res)
    case (FetchRejects err)
    obtain x where x: "caught ?v (Some err) = Returns x" "sameIds x ?v"
      using caught_error_ids[of ?v err] by blast
    with run FetchRejects have "out = Returns x" "v = ?v"
      by (simp_all add: browserPostEventStream_def Let_def)
    with x show ?thesis by simp
  next
    case (Responds status statusText)
    show ?thesis
    proof (cases "statusOk status")
      case False
      with run Responds show ?thesis
        by (auto simp: browserPostEventStream_def Let_def sameIds_def)
    next
      case ok: True
      show ?thesis
      proof (cases timeoutMs)
        case None
        with run Responds ok have "?plain = (out, v, calls)"
          by (simp add: browserPostEventStream_def Let_def)
        from plain[OF this] show ?thesis using Responds ok None by simp
      next
        case (Some ms)
        show ?thesis
        proof (cases "truthyNumber ms")
          case False
          then have z: "\<forall>n. ms = Fin n \<longrightarrow> n = 0" by (cases ms) auto
          from run Responds ok Some False have "?plain = (out, v, calls)"
            by (simp add: browserPostEventStream_def Let_def)
          from plain[OF this] show ?thesis using Responds ok Some z by simp
        next
          case tr: True
          let ?w = "pTimeout2 (timeoutOptions ms)"
          show ?thesis
          proof (cases "settledAs ?w")
            case (Some r)
            then obtain e where e: "r = Rejected e" using pTimeout2_settled_rejected by blast
            obtain x where x: "finish ?v (Rejected e) = Returns x" "sameIds x ?v"
              using finish_rejected[of ?v e] by blast
            from run Responds ok \<open>timeoutMs = Some ms\<close> tr Some e x
            have "out = Returns x" "v = ?v"
              by (simp_all add: browserPostEventStream_def Let_def)
            with x show ?thesis by simp
          next
            case None
            let ?rb = "readBody parse hasSink mid (Some ms) (Some ?w) ending createParser2 ?v [] happens"
            have wt: "waiting ?w" using pTimeout2_pending[OF None] by simp
            have eq: "?rb = (out, v, calls)"
              using run Responds ok \<open>timeoutMs = Some ms\<close> tr None
              by (simp add: browserPostEventStream_def Let_def)
            have a: "(\<forall>x. out = Returns x \<longrightarrow> sameIds x v) \<and>
                     (out = ThrowsTypeError \<longrightarrow> calls \<noteq> [] \<and> ProgressRejects None \<in> set happens)"
              by (rule readBody_outcome[OF _ eq]) (simp add: wt)
            have b: "out = NeverReturns \<longrightarrow> (\<forall>n. ms = Fin n \<longrightarrow> n = 0)"
            proof (intro allI impI)
              fix n assume nv: "out = NeverReturns" and m: "ms = Fin n"
              show "n = 0"
              proof (rule ccontr)
                assume "n \<noteq> 0"
                from pTimeout2_finite_pending_or_rejected[OF this None[unfolded m]]
                have armed: "timerState ?w = Armed" unfolding m .
                have "fst ?rb \<noteq> NeverReturns"
                  by (rule readBody_deadline_returns[OF wt armed])
                then show False using eq nv by simp
              qed
            qed
            from a b show ?thesis using Responds ok \<open>timeoutMs = Some ms\<close> by simp
          qed
        qed
      qed
    qed
  qed
qed

text \<open>
  C10 fails on the code. A call that returns hands its caller a snapshot or an error object
  with the conversation id and the message id that the variables hold at that moment, and a
  rejected \<open>fetch\<close>, a status that is not ok and a finite deadline other than zero each end
  in a returned value. But the call does not return a value for every outcome. When a progress
  call rejects with \<open>null\<close> or \<open>undefined\<close>, \<open>onMessage\<close> rejects \<open>responseP\<close> with that
  value; in the \<open>catch\<close> block \<open>err.toString()\<close> then throws a \<open>TypeError\<close>, which
  goes to the caller. And with an ok status and no finite deadline, a body that ends without
  \<open>[DONE]\<close> leaves the call pending for ever. In the scripted exchange, after the first
  progress snapshot: a progress call rejecting with \<open>undefined\<close> makes the call throw; one
  rejecting with an error object, and a deadline of 1000 milliseconds that fires, each give
  the error object with the ids \<open>c1\<close> and \<open>m1\<close>.
\<close>

theorem C10_throws_or_never_returns:
  "(browserPostEventStream parse hasSink cid mid timeoutMs res happens ending = (Returns x, v, calls)
      \<longrightarrow> sameIds x v) \<and>
   (browserPostEventStream parse hasSink cid mid timeoutMs res happens ending
      = (ThrowsTypeError, v, calls) \<longrightarrow> calls \<noteq> [] \<and> ProgressRejects None \<in> set happens) \<and>
   (fst (browserPostEventStream parse hasSink cid mid timeoutMs res happens ending) = NeverReturns
      \<longrightarrow> (\<exists>status statusText. res = Responds status statusText \<and> statusOk status) \<and>
           (\<forall>n. timeoutMs = Some (Fin n) \<longrightarrow> n = 0)) \<and>
   (made \<noteq> [] \<and> (wrapper = None \<or> (\<exists>w. wrapper = Some w \<and> waiting w)) \<longrightarrow>
      readBody parse hasSink orig deadline wrapper ending p u made (ProgressRejects None # rest)
        = (ThrowsTypeError, u, made)) \<and>
   (statusOk st \<longrightarrow>
      fst (browserPostEventStream parse hasSink cid mid None (Responds st stText) [] ending)
        = NeverReturns) \<and>
   browserPostEventStream twoPayloads True None (Some (JStr ''m0'')) None (Responds 200 ''OK'')
       [Chunk (''data: first'' @ [LF, LF]), ProgressRejects None] BodyDone
     = (ThrowsTypeError,
        \<lparr>response = JStr ''Hel'', conversationId = Some (JStr ''c1''),
         messageId = Some (JStr ''m1'')\<rparr>,
        [\<lparr>progOrigMessageId = Some (JStr ''m0''), progResponse = JStr ''Hel'',
          progConversationId = Some (JStr ''c1''), progMessageId = Some (JStr ''m1'')\<rparr>]) \<and>
   fst (browserPostEventStream twoPayloads True None (Some (JStr ''m0'')) None (Responds 200 ''OK'')
          [Chunk (''data: first'' @ [LF, LF]), ProgressRejects (Some (plainError ''Error'' ''boom''))]
          BodyDone)
     = Returns (ErrorObject ''Error: boom'' None None (Some (JStr ''c1'')) (Some (JStr ''m1''))) \<and>
   fst (browserPostEventStream twoPayloads True None (Some (JStr ''m0'')) (Some (Fin 1000))
          (Responds 200 ''OK'') [Chunk (''data: first'' @ [LF, LF]), Deadline] BodyDone)
     = Returns (ErrorObject ''TimeoutError: ChatGPT timed out waiting for response'' None None
                  (Some (JStr ''c1'')) (Some (JStr ''m1'')))"
proof (intro conjI impI)
  assume "browserPostEventStream parse hasSink cid mid timeoutMs res happens ending
            = (Returns x, v, calls)"
  from browserPostEventStream_outcome[OF this] show "sameIds x v" by simp
next
  assume r: "browserPostEventStream parse hasSink cid mid timeoutMs res happens ending
            = (ThrowsTypeError, v, calls)"
  from browserPostEventStream_outcome[OF r] show "calls \<noteq> []" by simp
  from browserPostEventStream_outcome[OF r] show "ProgressRejects None \<in> set happens" by simp
next
  assume n: "fst (browserPostEventStream parse hasSink cid mid timeoutMs res happens ending)
               = NeverReturns"
  obtain out v0 calls0
    where r: "browserPostEventStream parse hasSink cid mid timeoutMs res happens ending
                = (out, v0, calls0)"
    by (cases "browserPostEventStream parse hasSink cid mid timeoutMs res happens ending")
  with n have o: "out = NeverReturns" by simp
  from browserPostEventStream_outcome[OF r] o
  show "\<exists>status statusText. res = Responds status statusText \<and> statusOk status" by simp
  from browserPostEventStream_outcome[OF r] o
  show "\<forall>n. timeoutMs = Some (Fin n) \<longrightarrow> n = 0" by simp
next
  assume a: "made \<noteq> [] \<and> (wrapper = None \<or> (\<exists>w. wrapper = Some w \<and> waiting w))"
  from a have m: "made \<noteq> []" by simp
  from a have w: "wrapper = None \<or> (\<exists>w. wrapper = Some w \<and> waiting w)" by simp
  show "readBody parse hasSink orig deadline wrapper ending p u made (ProgressRejects None # rest)
        = (ThrowsTypeError, u, made)"
    by (rule readBody_nullish[OF m w])
next
  assume "statusOk st"
  then show "fst (browserPostEventStream parse hasSink cid mid None (Responds st stText) [] ending)
        = NeverReturns"
    by (simp add: browserPostEventStream_def bodyOver_def Let_def split: body_end.splits)
next
  show "browserPostEventStream twoPayloads True None (Some (JStr ''m0'')) None (Responds 200 ''OK'')
       [Chunk (''data: first'' @ [LF, LF]), ProgressRejects None] BodyDone
     = (ThrowsTypeError,
        \<lparr>response = JStr ''Hel'', conversationId = Some (JStr ''c1''),
         messageId = Some (JStr ''m1'')\<rparr>,
        [\<lparr>progOrigMessageId = Some (JStr ''m0''), progResponse = JStr ''Hel'',
          progConversationId = Some (JStr ''c1''), progMessageId = Some (JStr ''m1'')\<rparr>])"
    by code_simp
  show "fst (browserPostEventStream twoPayloads True None (Some (JStr ''m0'')) None (Responds 200 ''OK'')
          [Chunk (''data: first'' @ [LF, LF]), ProgressRejects (Some (plainError ''Error'' ''boom''))]
          BodyDone)
     = Returns (ErrorObject ''Error: boom'' None None (Some (JStr ''c1'')) (Some (JStr ''m1'')))"
    by code_simp
  show "fst (browserPostEventStream twoPayloads True None (Some (JStr ''m0'')) (Some (Fin 1000))
          (Responds 200 ''OK'') [Chunk (''data: first'' @ [LF, LF]), Deadline] BodyDone)
     = Returns (ErrorObject ''TimeoutError: ChatGPT timed out waiting for response'' None None
                  (Some (JStr ''c1'')) (Some (JStr ''m1'')))"
    by code_simp
qed

lemma caught_terminated:
  "caught v (Some (plainError ''TypeError'' ''terminated'')) =
     Returns (if truthy (response v) then Snapshot (response v) (conversationId v) (messageId v)
              else ErrorObject ''TypeError: terminated'' None None (conversationId v) (messageId v))"
proof -
  have e: "errToString (plainError ''TypeError'' ''terminated'') = ''TypeError: terminated''"
    by (simp add: errToString_def plainError_def)
  have l: "toLowerCase ''TypeError: terminated'' = ''typeerror: terminated''"
    by code_simp
  show ?thesis
    unfolding caught_def option.case Let_def e l
    by (simp add: plainError_def orElse_def truthyO_def)
qed

text \<open>
  C3 fails on the code. The sentinel \<open>[DONE]\<close> resolves with the snapshot of the variables,
  and the \<open>catch\<close> block turns a \<open>TypeError: terminated\<close> into the snapshot once a
  response has been streamed; but the end of the body, by \<open>done\<close> or by a failed read,
  settles nothing, and with no deadline the call never returns: two progress snapshots and
  then the end of the body give no result, where the same chunks followed by \<open>[DONE]\<close> give
  the second snapshot.
\<close>

theorem C3_body_end_never_returns:
  "onMessage parse hasSink orig v ''[DONE]''
     = (v, Resolves (Snapshot (response v) (conversationId v) (messageId v))) \<and>
   caught v (Some (plainError ''TypeError'' ''terminated'')) =
     Returns (if truthy (response v) then Snapshot (response v) (conversationId v) (messageId v)
              else ErrorObject ''TypeError: terminated'' None None (conversationId v) (messageId v)) \<and>
   fst (readBody parse hasSink orig None None ending p v calls []) = NeverReturns \<and>
   fst (browserPostEventStream twoPayloads True None (Some (JStr ''m0'')) None (Responds 200 ''OK'')
          twoSnapshots (ReadFails (plainError ''TypeError'' ''terminated''))) = NeverReturns \<and>
   fst (browserPostEventStream twoPayloads True None (Some (JStr ''m0'')) None (Responds 200 ''OK'')
          (twoSnapshots @ [Chunk (''data: [DONE]'' @ [LF, LF])]) BodyDone)
     = Returns (Snapshot (JStr ''Hello'') (Some (JStr ''c1'')) (Some (JStr ''m1'')))"
proof (intro conjI)
  show "onMessage parse hasSink orig v ''[DONE]''
     = (v, Resolves (Snapshot (response v) (conversationId v) (messageId v)))"
    by (simp add: onMessage_def)
  show "caught v (Some (plainError ''TypeError'' ''terminated'')) =
     Returns (if truthy (response v) then Snapshot (response v) (conversationId v) (messageId v)
              else ErrorObject ''TypeError: terminated'' None None (conversationId v) (messageId v))"
    by (rule caught_terminated)
  show "fst (readBody parse hasSink orig None None ending p v calls []) = NeverReturns"
    by (simp add: bodyOver_def split: body_end.splits)
  show "fst (browserPostEventStream twoPayloads True None (Some (JStr ''m0'')) None (Responds 200 ''OK'')
          twoSnapshots (ReadFails (plainError ''TypeError'' ''terminated''))) = NeverReturns"
    by code_simp
  show "fst (browserPostEventStream twoPayloads True None (Some (JStr ''m0'')) None (Responds 200 ''OK'')
          (twoSnapshots @ [Chunk (''data: [DONE]'' @ [LF, LF])]) BodyDone)
     = Returns (Snapshot (JStr ''Hello'') (Some (JStr ''c1'')) (Some (JStr ''m1'')))"
    by code_simp
qed

section \<open>Payloads and the credential cache\<close>

text \<open>
  C7 holds for \<open>onMessage\<close> of \<open>browserPostEventStream\<close> and fails for the handler of
  \<open>ChatGPTAPI.sendMessage\<close>. In the page a payload that does not parse is skipped with a
  warning, the variables unchanged; a payload that parses and supplies a truthy first part
  replaces the response by it, takes the conversation id and the message id when the payload
  supplies truthy ones, and calls the progress function, when set, with these values. In
  \<open>ChatGPTAPI.sendMessage\<close> the same parse failure rejects the promise with the error.
\<close>

theorem C7_parse_failure:
  "(d \<noteq> ''[DONE]'' \<and> parse d = None \<longrightarrow>
      onMessage parse hasSink orig v d = (v, ParseWarning)) \<and>
   (d \<noteq> ''[DONE]'' \<and> parse d = Some payload \<and> truthy payload \<and>
    optElem0 (optProp (optProp (getProp payload ''message'') ''content'') ''parts'') = Some newText \<and>
    truthy newText \<longrightarrow>
      response (fst (onMessage parse hasSink orig v d)) = newText \<and>
      conversationId (fst (onMessage parse hasSink orig v d))
        = (if truthyO (getProp payload ''conversation_id'')
           then getProp payload ''conversation_id'' else conversationId v) \<and>
      messageId (fst (onMessage parse hasSink orig v d))
        = (if truthyO (optProp (getProp payload ''message'') ''id'')
           then optProp (getProp payload ''message'') ''id'' else messageId v) \<and>
      snd (onMessage parse hasSink orig v d)
        = Processed (if hasSink
                     then Some \<lparr>progOrigMessageId = orig, progResponse = newText,
                                 progConversationId = conversationId (fst (onMessage parse hasSink orig v d)),
                                 progMessageId = messageId (fst (onMessage parse hasSink orig v d))\<rparr>
                     else None)) \<and>
   (d \<noteq> ''[DONE]'' \<and> parseApi d = Inl err \<longrightarrow>
      apiOnMessage parseApi markdown markdownToText onProgress v d = (v, ApiRejects err))"
  by (auto simp: onMessage_def apiOnMessage_def Let_def)

text \<open>
  Witness of C7: the payload \<open>{\<close>, which does not parse, and the second progress payload.
\<close>

theorem C7_parse_failure_witness:
  "onMessage twoPayloads True (Some (JStr ''m0''))
       \<lparr>response = JStr ''Hel'', conversationId = None, messageId = Some (JStr ''m0'')\<rparr> ''{''
     = (\<lparr>response = JStr ''Hel'', conversationId = None, messageId = Some (JStr ''m0'')\<rparr>, ParseWarning) \<and>
   response (fst (onMessage twoPayloads True (Some (JStr ''m0''))
       \<lparr>response = JStr ''Hel'', conversationId = None, messageId = Some (JStr ''m0'')\<rparr> ''second''))
     = JStr ''Hello'' \<and>
   apiOnMessage (\<lambda>d. Inl (plainError ''SyntaxError'' ''Unexpected end of JSON input'')) True (\<lambda>x. x) None
       \<lparr>response = JStr ''Hel'', conversationId = None, messageId = Some (JStr ''m0'')\<rparr> ''{''
     = (\<lparr>response = JStr ''Hel'', conversationId = None, messageId = Some (JStr ''m0'')\<rparr>,
        ApiRejects (plainError ''SyntaxError'' ''Unexpected end of JSON input''))"
proof -
  let ?v = "\<lparr>response = JStr ''Hel'', conversationId = None, messageId = Some (JStr ''m0'')\<rparr>"
  let ?second = "JObj [(''message'', JObj [(''id'', JStr ''m1''),
                                   (''content'', JObj [(''parts'', JArr [JStr ''Hello''])])])]"
  have h1: "''{'' \<noteq> ''[DONE]'' \<and> twoPayloads ''{'' = None"
    by (simp add: twoPayloads_def tableParse_def)
  have h2: "''second'' \<noteq> ''[DONE]'' \<and> twoPayloads ''second'' = Some ?second \<and> truthy ?second \<and>
            optElem0 (optProp (optProp (getProp ?second ''message'') ''content'') ''parts'') = Some (JStr ''Hello'') \<and>
            truthy (JStr ''Hello'')"
    by (simp add: twoPayloads_def tableParse_def)
  have h3: "''{'' \<noteq> ''[DONE]'' \<and>
            (\<lambda>d. Inl (plainError ''SyntaxError'' ''Unexpected end of JSON input'') :: jserror + json) ''{''
              = Inl (plainError ''SyntaxError'' ''Unexpected end of JSON input'')"
    by simp
  from C7_parse_failure[where d = "''{''" and parse = twoPayloads and hasSink = True
         and orig = "Some (JStr ''m0'')" and v = "?v"] h1
  have a: "onMessage twoPayloads True (Some (JStr ''m0'')) ?v ''{'' = (?v, ParseWarning)" by blast
  from C7_parse_failure[where d = "''second''" and parse = twoPayloads and payload = "?second"
         and newText = "JStr ''Hello''" and hasSink = True and orig = "Some (JStr ''m0'')" and v = "?v"] h2
  have b: "response (fst (onMessage twoPayloads True (Some (JStr ''m0'')) ?v ''second'')) = JStr ''Hello''"
    by blast
  from C7_parse_failure[where d = "''{''"
         and parseApi = "\<lambda>d. Inl (plainError ''SyntaxError'' ''Unexpected end of JSON input'')"
         and err = "plainError ''SyntaxError'' ''Unexpected end of JSON input''" and markdown = True
         and markdownToText = "\<lambda>x. x" and onProgress = None and v = "?v"] h3
  have c: "apiOnMessage (\<lambda>d. Inl (plainError ''SyntaxError'' ''Unexpected end of JSON input'')) True (\<lambda>x. x) None ?v ''{''
           = (?v, ApiRejects (plainError ''SyntaxError'' ''Unexpected end of JSON input''))"
    by blast
  from a b c show ?thesis by blast
qed

text \<open>
  C9. Reading the cache after \<open>set\<close> gives the value exactly while the time is before the
  time of the \<open>set\<close> plus the time-to-live; whatever \<open>get\<close> returns has an expiry that has
  not passed; once the time-to-live has elapsed since the \<open>set\<close> of the token,
  \<open>refreshSession\<close> renews the session instead of answering from the cache; and a token
  that \<open>refreshSession\<close> returns without renewing has an expiry that has not passed.
\<close>

theorem C9_cache_expiry:
  "emGet now (emSet t c k tok) k = (if now < t + timeToLive c then Some tok else None) \<and>
   (emGet now c k = Some tok \<longrightarrow> (\<exists>expiry. entries c k = Some (tok, expiry) \<and> now < expiry)) \<and>
   (accessTokenCache api = emSet t c KEY_ACCESS_TOKEN tok \<and> t + timeToLive c \<le> now \<longrightarrow>
      refreshSession toStr now later api fetched = renewSession toStr later api fetched) \<and>
   (snd (refreshSession toStr now later api fetched) = Inr tok \<and>
    refreshSession toStr now later api fetched \<noteq> renewSession toStr later api fetched \<longrightarrow>
      (\<exists>expiry. entries (accessTokenCache api) KEY_ACCESS_TOKEN = Some (tok, expiry) \<and> now < expiry))"
proof (intro conjI impI)
  show "emGet now (emSet t c k tok) k = (if now < t + timeToLive c then Some tok else None)"
    by (simp add: emGet_def emSet_def)
  show "\<exists>expiry. entries c k = Some (tok, expiry) \<and> now < expiry" if "emGet now c k = Some tok"
    using that by (auto simp: emGet_def split: option.splits if_splits)
  show "refreshSession toStr now later api fetched = renewSession toStr later api fetched"
    if "accessTokenCache api = emSet t c KEY_ACCESS_TOKEN tok \<and> t + timeToLive c \<le> now"
    using that by (simp add: refreshSession_def emGet_def emSet_def)
  show "\<exists>expiry. entries (accessTokenCache api) KEY_ACCESS_TOKEN = Some (tok, expiry) \<and> now < expiry"
    if "snd (refreshSession toStr now later api fetched) = Inr tok \<and>
        refreshSession toStr now later api fetched \<noteq> renewSession toStr later api fetched"
    using that by (auto simp: refreshSession_def emGet_def split: option.splits if_splits)
qed

section \<open>Witnesses at scripted inputs\<close>

text \<open>
  Witness of C2: a transport scripted to answer 401 and then to succeed.
\<close>

theorem C2_first_401_returns_undefined_witness:
  "isAuthenticatedAt (scriptedWorld
       [EvaluateReturns (ErrorObject ''ChatGPTAPI error 401'' (Some (JNum 401))
                           (Some (JStr ''Unauthorized'')) None (Some (JStr ''m0''))),
        EvaluateReturns (Snapshot (JStr ''Hello'') (Some (JStr ''c1'')) (Some (JStr ''m1'')))]) 0 \<and>
   snd (sendMessage (scriptedWorld
       [EvaluateReturns (ErrorObject ''ChatGPTAPI error 401'' (Some (JNum 401))
                           (Some (JStr ''Unauthorized'')) None (Some (JStr ''m0''))),
        EvaluateReturns (Snapshot (JStr ''Hello'') (Some (JStr ''c1'')) (Some (JStr ''m1'')))])
       (\<lambda>x. x) ''m0'' (Some (7::nat)) (newBrowser True)) = ReturnedUndefined \<and>
   evaluations (fst (sendMessage (scriptedWorld
       [EvaluateReturns (ErrorObject ''ChatGPTAPI error 401'' (Some (JNum 401))
                           (Some (JStr ''Unauthorized'')) None (Some (JStr ''m0''))),
        EvaluateReturns (Snapshot (JStr ''Hello'') (Some (JStr ''c1'')) (Some (JStr ''m1'')))])
       (\<lambda>x. x) ''m0'' (Some (7::nat)) (newBrowser True))) = 1 \<and>
   resetSessions (fst (sendMessage (scriptedWorld
       [EvaluateReturns (ErrorObject ''ChatGPTAPI error 401'' (Some (JNum 401))
                           (Some (JStr ''Unauthorized'')) None (Some (JStr ''m0''))),
        EvaluateReturns (Snapshot (JStr ''Hello'') (Some (JStr ''c1'')) (Some (JStr ''m1'')))])
       (\<lambda>x. x) ''m0'' (Some (7::nat)) (newBrowser True))) = 0"
proof -
  let ?w = "scriptedWorld
       [EvaluateReturns (ErrorObject ''ChatGPTAPI error 401'' (Some (JNum 401))
                           (Some (JStr ''Unauthorized'')) None (Some (JStr ''m0''))),
        EvaluateReturns (Snapshot (JStr ''Hello'') (Some (JStr ''c1'')) (Some (JStr ''m1'')))]"
  have h1: "isAuthenticatedAt ?w 0" by (simp add: scriptedWorld_def)
  have h2: "evaluateAt ?w 0 = EvaluateReturns (ErrorObject ''ChatGPTAPI error 401'' (Some (JNum 401))
                           (Some (JStr ''Unauthorized'')) None (Some (JStr ''m0'')))"
    by (simp add: scriptedWorld_def)
  from C2_first_401_returns_undefined[OF h1 h2, of "\<lambda>x. x" "''m0''" "Some (7::nat)" True] h1
  show ?thesis by blast
qed

text \<open>
  Witness of C4: a transport scripted to answer 500, with the progress function 7 registered.
\<close>

theorem C4_handler_left_on_other_status_witness:
  "isAuthenticatedAt (scriptedWorld
       [EvaluateReturns (ErrorObject ''ChatGPTAPI error 500'' (Some (JNum 500))
                           (Some (JStr ''Internal Server Error'')) None (Some (JStr ''m0'')))]) 0 \<and>
   Some (JNum 500) \<noteq> Some (JNum 401) \<and> Some (JNum 500) \<noteq> Some (JNum 403) \<and>
   snd (sendMessage (scriptedWorld
       [EvaluateReturns (ErrorObject ''ChatGPTAPI error 500'' (Some (JNum 500))
                           (Some (JStr ''Internal Server Error'')) None (Some (JStr ''m0'')))])
       (\<lambda>x. x) ''m0'' (Some (7::nat)) (newBrowser True))
     = Threw \<lparr>ceMessage = ''ChatGPTAPI error 500'', ceStatusCode = Some (JNum 500),
              ceStatusText = Some (JStr ''Internal Server Error'')\<rparr> \<and>
   messageOnProgressHandlers (fst (sendMessage (scriptedWorld
       [EvaluateReturns (ErrorObject ''ChatGPTAPI error 500'' (Some (JNum 500))
                           (Some (JStr ''Internal Server Error'')) None (Some (JStr ''m0'')))])
       (\<lambda>x. x) ''m0'' (Some (7::nat)) (newBrowser True))) ''m0'' = Some 7"
proof -
  let ?w = "scriptedWorld
       [EvaluateReturns (ErrorObject ''ChatGPTAPI error 500'' (Some (JNum 500))
                           (Some (JStr ''Internal Server Error'')) None (Some (JStr ''m0'')))]"
  have h1: "isAuthenticatedAt ?w 0" by (simp add: scriptedWorld_def)
  have h2: "evaluateAt ?w 0 = EvaluateReturns (ErrorObject ''ChatGPTAPI error 500'' (Some (JNum 500))
                           (Some (JStr ''Internal Server Error'')) None (Some (JStr ''m0'')))"
    by (simp add: scriptedWorld_def)
  have h3: "Some (JNum 500) \<noteq> Some (JNum 401)" and h4: "Some (JNum 500) \<noteq> Some (JNum 403)"
    by simp_all
  from C4_handler_left_on_other_status[OF h1 h2 h3 h4, of "\<lambda>x. x" "''m0''" "7::nat" True] h1 h3 h4
  show ?thesis by blast
qed

text \<open>
  Witness of C5: the options of \<open>browserPostEventStream\<close> with a deadline of 1000
  milliseconds, of zero, and of infinity.
\<close>

theorem C5_deadline_wrapper_witness:
  "milliseconds (timeoutOptions (Fin 1000)) = Some (Fin 1000) \<and> (0::int) < 1000 \<and>
   signal (timeoutOptions (Fin 1000)) = None \<and> fallback (timeoutOptions (Fin 1000)) = None \<and>
   settledAs (happenAll True (timeoutOptions (Fin 1000)) (pTimeout2 (timeoutOptions (Fin 1000)))
                [OperationSettles (Fulfilled (Snapshot (JStr ''Hello'') None None)), TimerFires])
     = Some (Fulfilled (Snapshot (JStr ''Hello'') None None)) \<and>
   cancelCalls (happenAll True (timeoutOptions (Fin 1000)) (pTimeout2 (timeoutOptions (Fin 1000)))
                  [OperationSettles (Fulfilled (Snapshot (JStr ''Hello'') None None)), TimerFires]) = 0 \<and>
   settledAs (happenAll True (timeoutOptions (Fin 1000)) (pTimeout2 (timeoutOptions (Fin 1000)))
                [TimerFires, OperationSettles (Fulfilled (Snapshot (JStr ''Hello'') None None))])
     = Some (Rejected (plainError ''TimeoutError'' ''ChatGPT timed out waiting for response'')) \<and>
   cancelCalls (happenAll True (timeoutOptions (Fin 1000)) (pTimeout2 (timeoutOptions (Fin 1000)))
                  [TimerFires, OperationSettles (Fulfilled (Snapshot (JStr ''Hello'') None None))]) = 1 \<and>
   milliseconds (timeoutOptions (Fin 0)) = Some (Fin 0) \<and> (0::int) \<le> 0 \<and>
   settledAs (happenAll True (timeoutOptions (Fin 0)) (pTimeout2 (timeoutOptions (Fin 0)))
                [OperationSettles (Fulfilled (Snapshot (JStr ''Hello'') None None))])
     = Some (Rejected (invalidMilliseconds (Some (Fin 0)))) \<and>
   \<not> awaiting (happenAll True (timeoutOptions (Fin 0)) (pTimeout2 (timeoutOptions (Fin 0)))
                [OperationSettles (Fulfilled (Snapshot (JStr ''Hello'') None None))]) \<and>
   milliseconds (timeoutOptions PosInf) = Some PosInf \<and>
   timerState (happenAll True (timeoutOptions PosInf) (pTimeout2 (timeoutOptions PosInf)) [TimerFires])
     = NoTimer \<and>
   settledAs (happenAll True (timeoutOptions PosInf) (pTimeout2 (timeoutOptions PosInf))
                [OperationSettles (Fulfilled (Snapshot (JStr ''Hello'') None None)), TimerFires])
     = Some (Fulfilled (Snapshot (JStr ''Hello'') None None))"
proof -
  let ?r = "Fulfilled (Snapshot (JStr ''Hello'') None None) :: exchange_result settled"
  have h1: "milliseconds (timeoutOptions (Fin 1000)) = Some (Fin 1000) \<and> (0::int) < 1000 \<and>
            signal (timeoutOptions (Fin 1000)) = None"
    by (simp add: timeoutOptions_def)
  have h2: "fallback (timeoutOptions (Fin 1000)) = None" by (simp add: timeoutOptions_def)
  have h3: "milliseconds (timeoutOptions (Fin 0)) = Some (Fin 0) \<and> (0::int) \<le> 0"
    by (simp add: timeoutOptions_def)
  have h4: "milliseconds (timeoutOptions PosInf) = Some PosInf" by (simp add: timeoutOptions_def)
  have te: "timeoutError (timeoutOptions (Fin 1000))
            = plainError ''TimeoutError'' ''ChatGPT timed out waiting for response''"
    by (simp add: timeoutError_def timeoutOptions_def)
  note a = C5_deadline_wrapper[where options = "timeoutOptions (Fin 1000)" and n = 1000
             and hasCancel = True and r = ?r and hs = "[TimerFires]"]
  note b = C5_deadline_wrapper[where options = "timeoutOptions (Fin 1000)" and n = 1000
             and hasCancel = True and r = ?r and hs = "[OperationSettles ?r]"]
  note c = C5_deadline_wrapper[where options = "timeoutOptions (Fin 0)" and n = 0
             and hasCancel = True and r = ?r and hs = "[OperationSettles ?r]"]
  note d = C5_deadline_wrapper[where options = "timeoutOptions PosInf" and n = 0
             and hasCancel = True and r = ?r and hs = "[TimerFires]"]
  from a h1 have a1: "settledAs (happenAll True (timeoutOptions (Fin 1000)) (pTimeout2 (timeoutOptions (Fin 1000)))
                [OperationSettles ?r, TimerFires]) = Some ?r"
    and a2: "cancelCalls (happenAll True (timeoutOptions (Fin 1000)) (pTimeout2 (timeoutOptions (Fin 1000)))
                [OperationSettles ?r, TimerFires]) = 0" by blast+
  from b h1 h2 have b1: "settledAs (happenAll True (timeoutOptions (Fin 1000)) (pTimeout2 (timeoutOptions (Fin 1000)))
                [TimerFires, OperationSettles ?r]) = Some (Rejected (timeoutError (timeoutOptions (Fin 1000))))"
    and b2: "cancelCalls (happenAll True (timeoutOptions (Fin 1000)) (pTimeout2 (timeoutOptions (Fin 1000)))
                [TimerFires, OperationSettles ?r]) = (if True then 1 else 0)" by blast+
  from c h3 have c1: "settledAs (happenAll True (timeoutOptions (Fin 0)) (pTimeout2 (timeoutOptions (Fin 0)))
                [OperationSettles ?r]) = Some (Rejected (invalidMilliseconds (Some (Fin 0))))"
    and c2: "\<not> awaiting (happenAll True (timeoutOptions (Fin 0)) (pTimeout2 (timeoutOptions (Fin 0)))
                [OperationSettles ?r])" by blast+
  from d h4 have d1: "timerState (happenAll True (timeoutOptions PosInf) (pTimeout2 (timeoutOptions PosInf)) [TimerFires]) = NoTimer"
    and d2: "settledAs (happenAll True (timeoutOptions PosInf) (pTimeout2 (timeoutOptions PosInf))
                [OperationSettles ?r, TimerFires]) = Some ?r" by blast+
  from h1 h2 h3 h4 a1 a2 b1[unfolded te] b2 c1 c2 d1 d2 show ?thesis by simp
qed

text \<open>
  Witness of C9: a token stored at time 0 with a time-to-live of one hour, read one millisecond
  before the hour and at the hour.
\<close>

theorem C9_cache_expiry_witness:
  "emGet 3600000 (emSet 0 (newExpiryMap 3600000) KEY_ACCESS_TOKEN (JStr ''token'')) KEY_ACCESS_TOKEN = None \<and>
   emGet 3599999 (emSet 0 (newExpiryMap 3600000) KEY_ACCESS_TOKEN (JStr ''token'')) KEY_ACCESS_TOKEN
     = Some (JStr ''token'') \<and>
   (\<exists>expiry. entries (emSet 0 (newExpiryMap 3600000) KEY_ACCESS_TOKEN (JStr ''token'')) KEY_ACCESS_TOKEN
               = Some (JStr ''token'', expiry) \<and> 3599999 < expiry) \<and>
   (0::int) + timeToLive (newExpiryMap 3600000 :: json expiry_map) \<le> 3600000 \<and>
   refreshSession (\<lambda>x. []) 3600000 3600005
       \<lparr>accessTokenCache = emSet 0 (newExpiryMap 3600000) KEY_ACCESS_TOKEN (JStr ''token''), apiUser = None\<rparr>
       (SessionFetchRejects (plainError ''TypeError'' ''fetch failed''))
     = renewSession (\<lambda>x. []) 3600005
       \<lparr>accessTokenCache = emSet 0 (newExpiryMap 3600000) KEY_ACCESS_TOKEN (JStr ''token''), apiUser = None\<rparr>
       (SessionFetchRejects (plainError ''TypeError'' ''fetch failed'')) \<and>
   snd (refreshSession (\<lambda>x. []) 3599999 3600005
       \<lparr>accessTokenCache = emSet 0 (newExpiryMap 3600000) KEY_ACCESS_TOKEN (JStr ''token''), apiUser = None\<rparr>
       (SessionFetchRejects (plainError ''TypeError'' ''fetch failed''))) = Inr (JStr ''token'')"
proof -
  let ?c = "newExpiryMap 3600000 :: json expiry_map"
  let ?api = "\<lparr>accessTokenCache = emSet 0 ?c KEY_ACCESS_TOKEN (JStr ''token''), apiUser = None\<rparr>"
  let ?f = "SessionFetchRejects (plainError ''TypeError'' ''fetch failed'')"
  have ttl: "timeToLive ?c = 3600000" by (simp add: newExpiryMap_def)
  note a = C9_cache_expiry[where now = 3600000 and t = 0 and c = ?c and k = KEY_ACCESS_TOKEN
             and tok = "JStr ''token''" and api = ?api and toStr = "\<lambda>x. []" and later = 3600005
             and fetched = ?f]
  note b = C9_cache_expiry[where now = 3599999 and t = 0 and c = "emSet 0 ?c KEY_ACCESS_TOKEN (JStr ''token'')"
             and k = KEY_ACCESS_TOKEN and tok = "JStr ''token''" and api = ?api and toStr = "\<lambda>x. []"
             and later = 3600005 and fetched = ?f]
  note b0 = C9_cache_expiry[where now = 3599999 and t = 0 and c = ?c
             and k = KEY_ACCESS_TOKEN and tok = "JStr ''token''" and api = ?api and toStr = "\<lambda>x. []"
             and later = 3600005 and fetched = ?f]
  have h: "accessTokenCache ?api = emSet 0 ?c KEY_ACCESS_TOKEN (JStr ''token'') \<and> 0 + timeToLive ?c \<le> 3600000"
    by (simp add: ttl)
  from a have a1: "emGet 3600000 (emSet 0 ?c KEY_ACCESS_TOKEN (JStr ''token'')) KEY_ACCESS_TOKEN = None"
    by (simp add: ttl)
  from a h have a2: "refreshSession (\<lambda>x. []) 3600000 3600005 ?api ?f = renewSession (\<lambda>x. []) 3600005 ?api ?f"
    by blast
  from b0 have b1: "emGet 3599999 (emSet 0 ?c KEY_ACCESS_TOKEN (JStr ''token'')) KEY_ACCESS_TOKEN = Some (JStr ''token'')"
    by (simp add: ttl)
  from b b1 have b2: "\<exists>expiry. entries (emSet 0 ?c KEY_ACCESS_TOKEN (JStr ''token'')) KEY_ACCESS_TOKEN
               = Some (JStr ''token'', expiry) \<and> 3599999 < expiry" by blast
  have b3: "snd (refreshSession (\<lambda>x. []) 3599999 3600005 ?api ?f) = Inr (JStr ''token'')"
    using b1 by (simp add: refreshSession_def)
  from a1 a2 b1 b2 b3 h show ?thesis by simp
qed

text \<open>
  Witness of C10: the scripted exchange in which the deadline of 1000 milliseconds fires
  after the first progress snapshot, which returns; the one in which the progress call rejects
  with \<open>undefined\<close>, which throws; and an ok answer with an empty body and no deadline,
  which never returns.
\<close>

theorem C10_throws_or_never_returns_witness:
  "browserPostEventStream twoPayloads True None (Some (JStr ''m0'')) (Some (Fin 1000))
       (Responds 200 ''OK'') [Chunk (''data: first'' @ [LF, LF]), Deadline] BodyDone
     = (Returns (ErrorObject ''TimeoutError: ChatGPT timed out waiting for response'' None None
                   (Some (JStr ''c1'')) (Some (JStr ''m1''))),
        \<lparr>response = JStr ''Hel'', conversationId = Some (JStr ''c1''),
         messageId = Some (JStr ''m1'')\<rparr>,
        [\<lparr>progOrigMessageId = Some (JStr ''m0''), progResponse = JStr ''Hel'',
          progConversationId = Some (JStr ''c1''), progMessageId = Some (JStr ''m1'')\<rparr>]) \<and>
   sameIds (ErrorObject ''TimeoutError: ChatGPT timed out waiting for response'' None None
              (Some (JStr ''c1'')) (Some (JStr ''m1'')))
           \<lparr>response = JStr ''Hel'', conversationId = Some (JStr ''c1''),
            messageId = Some (JStr ''m1'')\<rparr> \<and>
   browserPostEventStream twoPayloads True None (Some (JStr ''m0'')) None (Responds 200 ''OK'')
       [Chunk (''data: first'' @ [LF, LF]), ProgressRejects None] BodyDone
     = (ThrowsTypeError,
        \<lparr>response = JStr ''Hel'', conversationId = Some (JStr ''c1''),
         messageId = Some (JStr ''m1'')\<rparr>,
        [\<lparr>progOrigMessageId = Some (JStr ''m0''), progResponse = JStr ''Hel'',
          progConversationId = Some (JStr ''c1''), progMessageId = Some (JStr ''m1'')\<rparr>]) \<and>
   ProgressRejects None \<in> set [Chunk (''data: first'' @ [LF, LF]), ProgressRejects None] \<and>
   statusOk 200 \<and>
   fst (browserPostEventStream twoPayloads True None (Some (JStr ''m0'')) None (Responds 200 ''OK'')
          [] BodyDone) = NeverReturns \<and>
   (\<exists>status statusText. Responds 200 ''OK'' = Responds status statusText \<and> statusOk status) \<and>
   readBody twoPayloads True (Some (JStr ''m0'')) None None BodyDone createParser2
       \<lparr>response = JStr ''Hel'', conversationId = Some (JStr ''c1''),
        messageId = Some (JStr ''m1'')\<rparr>
       [\<lparr>progOrigMessageId = Some (JStr ''m0''), progResponse = JStr ''Hel'',
         progConversationId = Some (JStr ''c1''), progMessageId = Some (JStr ''m1'')\<rparr>]
       (ProgressRejects None # [])
     = (ThrowsTypeError,
        \<lparr>response = JStr ''Hel'', conversationId = Some (JStr ''c1''),
         messageId = Some (JStr ''m1'')\<rparr>,
        [\<lparr>progOrigMessageId = Some (JStr ''m0''), progResponse = JStr ''Hel'',
          progConversationId = Some (JStr ''c1''), progMessageId = Some (JStr ''m1'')\<rparr>])"
proof -
  let ?v = "\<lparr>response = JStr ''Hel'', conversationId = Some (JStr ''c1''),
             messageId = Some (JStr ''m1'')\<rparr>"
  let ?c = "[\<lparr>progOrigMessageId = Some (JStr ''m0''), progResponse = JStr ''Hel'',
              progConversationId = Some (JStr ''c1''), progMessageId = Some (JStr ''m1'')\<rparr>]"
  let ?x = "ErrorObject ''TimeoutError: ChatGPT timed out waiting for response'' None None
              (Some (JStr ''c1'')) (Some (JStr ''m1''))"
  have e1: "browserPostEventStream twoPayloads True None (Some (JStr ''m0'')) (Some (Fin 1000))
       (Responds 200 ''OK'') [Chunk (''data: first'' @ [LF, LF]), Deadline] BodyDone
     = (Returns ?x, ?v, ?c)"
    by code_simp
  have e2: "browserPostEventStream twoPayloads True None (Some (JStr ''m0'')) None (Responds 200 ''OK'')
       [Chunk (''data: first'' @ [LF, LF]), ProgressRejects None] BodyDone
     = (ThrowsTypeError, ?v, ?c)"
    by code_simp
  have ok: "statusOk 200" by (simp add: statusOk_def)
  have ne: "?c \<noteq> [] \<and> ((None :: exchange_result cancelable option) = None \<or>
              (\<exists>w. (None :: exchange_result cancelable option) = Some w \<and> waiting w))"
    by simp
  from C10_throws_or_never_returns[where parse = twoPayloads and hasSink = True and cid = None
         and mid = "Some (JStr ''m0'')" and timeoutMs = "Some (Fin 1000)"
         and res = "Responds 200 ''OK''"
         and happens = "[Chunk (''data: first'' @ [LF, LF]), Deadline]" and ending = BodyDone
         and x = ?x and v = ?v and calls = ?c] e1
  have s1: "sameIds ?x ?v" by blast
  from C10_throws_or_never_returns[where parse = twoPayloads and hasSink = True and cid = None
         and mid = "Some (JStr ''m0'')" and timeoutMs = None and res = "Responds 200 ''OK''"
         and happens = "[Chunk (''data: first'' @ [LF, LF]), ProgressRejects None]"
         and ending = BodyDone and v = ?v and calls = ?c] e2
  have s2: "ProgressRejects None \<in> set [Chunk (''data: first'' @ [LF, LF]), ProgressRejects None]"
    by blast
  from C10_throws_or_never_returns[where parse = twoPayloads and hasSink = True and cid = None
         and mid = "Some (JStr ''m0'')" and ending = BodyDone and st = 200 and stText = "''OK''"] ok
  have s3: "fst (browserPostEventStream twoPayloads True None (Some (JStr ''m0'')) None
                   (Responds 200 ''OK'') [] BodyDone) = NeverReturns"
    by blast
  from C10_throws_or_never_returns[where parse = twoPayloads and hasSink = True
         and orig = "Some (JStr ''m0'')" and deadline = None and wrapper = None
         and ending = BodyDone and p = createParser2 and u = ?v and made = ?c and rest = "[]"] ne
  have s4: "readBody twoPayloads True (Some (JStr ''m0'')) None None BodyDone createParser2 ?v ?c
              (ProgressRejects None # []) = (ThrowsTypeError, ?v, ?c)"
    by blast
  have s5: "\<exists>status statusText. Responds 200 ''OK'' = Responds status statusText \<and> statusOk status"
    by (rule C10_throws_or_never_returns[where parse = twoPayloads and hasSink = True
          and cid = None and mid = "Some (JStr ''m0'')" and timeoutMs = None
          and res = "Responds 200 ''OK''" and happens = "[]" and ending = BodyDone,
          THEN conjunct2, THEN conjunct2, THEN conjunct1, THEN mp, THEN conjunct1, OF s3])
  from e1 s1 e2 s2 ok s3 s5 s4 show ?thesis by (intro conjI)
qed

end
